theory Spec2Isabelle
  imports Complex_Main
begin

section \<open>Python strings\<close>

text \<open>
  A Python \<open>str\<close> is a sequence of Unicode code points, and \<open>len\<close> counts code
  points. The sources hold Chinese text, so a string is modelled as the list of its code
  points; \<open>ascii\<close> embeds an ASCII literal.
\<close>

type_synonym pystr = "nat list"

definition ascii :: "string \<Rightarrow> pystr" where
  "ascii s = map of_char s"

definition startswith :: "pystr \<Rightarrow> pystr \<Rightarrow> bool" where
  \<comment> \<open>\<open>s.startswith(p)\<close>\<close>
  "startswith s p = (take (length p) s = p)"

definition py_isspace :: "nat \<Rightarrow> bool" where
  \<comment> \<open>the code points \<open>str.isspace\<close> accepts, which \<open>str.strip()\<close> removes\<close>
  "py_isspace c =
     ((0x9 \<le> c \<and> c \<le> 0xD) \<or> (0x1C \<le> c \<and> c \<le> 0x20) \<or> c = 0x85 \<or> c = 0xA0 \<or>
      c = 0x1680 \<or> (0x2000 \<le> c \<and> c \<le> 0x200A) \<or> c = 0x2028 \<or> c = 0x2029 \<or>
      c = 0x202F \<or> c = 0x205F \<or> c = 0x3000)"

definition py_strip :: "pystr \<Rightarrow> pystr" where
  \<comment> \<open>\<open>s.strip()\<close>\<close>
  "py_strip s = rev (dropWhile py_isspace (rev (dropWhile py_isspace s)))"

fun split_acc :: "nat \<Rightarrow> pystr \<Rightarrow> pystr \<Rightarrow> pystr list" where
  "split_acc c cur [] = [cur]"
| "split_acc c cur (x # xs) =
     (if x = c then cur # split_acc c [] xs else split_acc c (cur @ [x]) xs)"

definition py_split :: "nat \<Rightarrow> pystr \<Rightarrow> pystr list" where
  \<comment> \<open>\<open>s.split(sep)\<close> for a separator of one character\<close>
  "py_split c s = split_acc c [] s"

fun split_first :: "nat \<Rightarrow> pystr \<Rightarrow> (pystr \<times> pystr) option" where
  "split_first c [] = None"
| "split_first c (x # xs) =
     (if x = c then Some ([], xs)
      else (case split_first c xs of
              None \<Rightarrow> None
            | Some (a, b) \<Rightarrow> Some (x # a, b)))"

definition py_split1 :: "nat \<Rightarrow> pystr \<Rightarrow> pystr list" where
  \<comment> \<open>\<open>s.split(sep, 1)\<close> for a separator of one character: at most one cut, at the
      first occurrence\<close>
  "py_split1 c s = (case split_first c s of None \<Rightarrow> [s] | Some (a, b) \<Rightarrow> [a, b])"

fun join :: "pystr \<Rightarrow> pystr list \<Rightarrow> pystr" where
  \<comment> \<open>\<open>sep.join(xs)\<close>\<close>
  "join sep [] = []"
| "join sep [x] = x"
| "join sep (x # y # ys) = x @ sep @ join sep (y # ys)"

fun contains :: "pystr \<Rightarrow> pystr \<Rightarrow> bool" where
  \<comment> \<open>\<open>sub in s\<close> on strings\<close>
  "contains sub [] = (sub = [])"
| "contains sub (x # xs) = (startswith (x # xs) sub \<or> contains sub xs)"

definition colon :: nat where
  "colon = 0x3A"

definition newline :: nat where
  "newline = 0xA"

section \<open>Exceptions and JSON values\<close>

text \<open>
  \<open>Exception msg\<close> stands for a raised exception of class \<open>Exception\<close> (or a subclass)
  whose \<open>str(e)\<close> is \<open>msg\<close>: what an \<open>except Exception\<close> clause catches. A function
  that can raise returns \<open>exn + 'a\<close>, with \<open>Inl\<close> for the exception.
\<close>

datatype exn = Exception pystr

text \<open>
  The values of tool arguments: what \<open>json.loads\<close> builds. A \<open>dict\<close> is the list of
  its items in insertion order. \<open>JFloat\<close> carries the exact value of a finite double.
\<close>

datatype json =
  JNull
| JBool bool
| JInt int
| JFloat real
| JStr pystr
| JArr "json list"
| JObj "(pystr \<times> json) list"

datatype number = NInt int | NFloat real

definition json_of_number :: "number \<Rightarrow> json" where
  "json_of_number n = (case n of NInt i \<Rightarrow> JInt i | NFloat r \<Rightarrow> JFloat r)"

definition real_of_number :: "number \<Rightarrow> real" where
  "real_of_number n = (case n of NInt i \<Rightarrow> real_of_int i | NFloat r \<Rightarrow> r)"

fun num_value :: "json \<Rightarrow> real option" where
  \<comment> \<open>the numeric value of a Python \<open>bool\<close>, \<open>int\<close> or \<open>float\<close>; \<open>True\<close> is 1\<close>
  "num_value (JBool b) = Some (if b then 1 else 0)"
| "num_value (JInt i) = Some (real_of_int i)"
| "num_value (JFloat r) = Some r"
| "num_value _ = None"

lemma json_size_item [termination_simp]:
  "(k, v) \<in> set kvs \<Longrightarrow> size v < Suc (size_list (size_prod (\<lambda>_. 0) size) kvs)"
  by (induction kvs) auto

lemma json_size_elem [termination_simp]:
  "x \<in> set xs \<Longrightarrow> size x < Suc (size_list size xs)"
  by (induction xs) auto

lemma json_size_enumerate [termination_simp]:
  "(i, x) \<in> set (enumerate n xs) \<Longrightarrow> size x < Suc (size_list size xs)"
  by (auto simp: in_set_enumerate_eq intro: json_size_elem)

fun py_eq :: "json \<Rightarrow> json \<Rightarrow> bool" where
  \<comment> \<open>Python's \<open>==\<close> on these values: numbers (booleans included) by value, lists
      item by item, dicts key by key whatever their order\<close>
  "py_eq JNull JNull = True"
| "py_eq (JStr s) (JStr s') = (s = s')"
| "py_eq (JArr xs) (JArr ys) = list_all2 py_eq xs ys"
| "py_eq (JObj xs) (JObj ys) =
     (set (map fst xs) = set (map fst ys) \<and>
      (\<forall>(k, v) \<in> set xs. case map_of ys k of None \<Rightarrow> False | Some v' \<Rightarrow> py_eq v v'))"
| "py_eq a b = (case (num_value a, num_value b) of (Some x, Some y) \<Rightarrow> x = y | _ \<Rightarrow> False)"

definition py_in :: "json \<Rightarrow> json list \<Rightarrow> bool" where
  \<comment> \<open>\<open>val in xs\<close> on a list\<close>
  "py_in val xs = list_ex (py_eq val) xs"

text \<open>
  Builtins of Python and of its standard library that the sources call and whose text
  output is not modelled here: they are parameters of the model.
  \<open>py_repr\<close> is \<open>repr\<close> (which is also \<open>str\<close> on numbers and lists).
\<close>

record py_builtins =
  py_repr :: "json \<Rightarrow> pystr"
  json_dumps :: "json \<Rightarrow> pystr"
  json_loads :: "pystr \<Rightarrow> json option"
  py_lower :: "pystr \<Rightarrow> pystr"
  py_upper :: "pystr \<Rightarrow> pystr"

section \<open>Tools (agent/tools/base.py)\<close>

text \<open>
  A parameter schema is a dict of the JSON-schema keywords that \<open>Tool._validate\<close> reads;
  a keyword that the dict does not hold is \<open>None\<close>.
\<close>

datatype schema = Schema
  (sch_type: "pystr option")
  (sch_enum: "json list option")
  (sch_minimum: "number option")
  (sch_maximum: "number option")
  (sch_minLength: "int option")
  (sch_maxLength: "int option")
  (sch_properties: "(pystr \<times> schema) list option")
  (sch_required: "pystr list option")
  (sch_items: "schema option")

definition TYPE_MAP :: "pystr \<Rightarrow> (json \<Rightarrow> bool) option" where
  \<comment> \<open>\<open>Tool._TYPE_MAP\<close>, each class as its \<open>isinstance\<close> test; \<open>bool\<close> is a subclass
      of \<open>int\<close> in Python\<close>
  "TYPE_MAP t =
     (if t = ascii ''string'' then Some (\<lambda>v. case v of JStr _ \<Rightarrow> True | _ \<Rightarrow> False)
      else if t = ascii ''integer''
        then Some (\<lambda>v. case v of JInt _ \<Rightarrow> True | JBool _ \<Rightarrow> True | _ \<Rightarrow> False)
      else if t = ascii ''number''
        then Some (\<lambda>v. case v of JInt _ \<Rightarrow> True | JBool _ \<Rightarrow> True | JFloat _ \<Rightarrow> True
                         | _ \<Rightarrow> False)
      else if t = ascii ''boolean'' then Some (\<lambda>v. case v of JBool _ \<Rightarrow> True | _ \<Rightarrow> False)
      else if t = ascii ''array'' then Some (\<lambda>v. case v of JArr _ \<Rightarrow> True | _ \<Rightarrow> False)
      else if t = ascii ''object'' then Some (\<lambda>v. case v of JObj _ \<Rightarrow> True | _ \<Rightarrow> False)
      else None)"

definition type_mismatch :: "pystr option \<Rightarrow> json \<Rightarrow> bool" where
  \<comment> \<open>\<open>t in self._TYPE_MAP and not isinstance(val, self._TYPE_MAP[t])\<close>\<close>
  "type_mismatch t val =
     (case t of
        None \<Rightarrow> False
      | Some tn \<Rightarrow> (case TYPE_MAP tn of None \<Rightarrow> False | Some isinstance \<Rightarrow> \<not> isinstance val))"

definition fmt_type :: "pystr option \<Rightarrow> pystr" where
  \<comment> \<open>\<open>{t}\<close> in an f-string\<close>
  "fmt_type t = (case t of None \<Rightarrow> ascii ''None'' | Some tn \<Rightarrow> tn)"

definition MSG_SHOULD_BE :: pystr where
  "MSG_SHOULD_BE = [0x20, 0x5E94, 0x8BE5, 0x662F, 0x20]"

definition MSG_TYPE :: pystr where
  "MSG_TYPE = [0x20, 0x7C7B, 0x578B]"

definition MSG_MUST_BE :: pystr where
  "MSG_MUST_BE = [0x20, 0x5FC5, 0x987B, 0x662F, 0x20]"

definition MSG_ONE_OF :: pystr where
  "MSG_ONE_OF = [0x20, 0x4E4B, 0x4E00]"

definition MSG_GE :: pystr where
  "MSG_GE = [0x20, 0x5FC5, 0x987B, 0x20, 0x3E, 0x3D, 0x20]"

definition MSG_LE :: pystr where
  "MSG_LE = [0x20, 0x5FC5, 0x987B, 0x20, 0x3C, 0x3D, 0x20]"

definition MSG_AT_LEAST :: pystr where
  "MSG_AT_LEAST = [0x20, 0x81F3, 0x5C11, 0x20]"

definition MSG_AT_MOST :: pystr where
  "MSG_AT_MOST = [0x20, 0x6700, 0x591A, 0x20]"

definition MSG_CHARS :: pystr where
  "MSG_CHARS = [0x20, 0x4E2A, 0x5B57, 0x7B26]"

definition MSG_MISSING :: pystr where
  "MSG_MISSING = [0x7F3A, 0x5C11, 0x5FC5, 0x9700, 0x7684, 0x20]"

definition MSG_SCHEMA_OBJECT :: pystr where
  "MSG_SCHEMA_OBJECT =
     [0x53, 0x63, 0x68, 0x65, 0x6D, 0x61, 0x20, 0x5FC5, 0x987B, 0x662F, 0x20, 0x6F, 0x62,
      0x6A, 0x65, 0x63, 0x74, 0x20, 0x7C7B, 0x578B, 0xFF0C, 0x5F53, 0x524D, 0x4E3A, 0x20]"

definition path_label :: "pystr \<Rightarrow> pystr" where
  \<comment> \<open>\<open>path or "parameter"\<close>\<close>
  "path_label path = (if path \<noteq> [] then path else ascii ''parameter'')"

definition child_path :: "pystr \<Rightarrow> pystr \<Rightarrow> pystr" where
  \<comment> \<open>\<open>path + '.' + k if path else k\<close>\<close>
  "child_path path k = (if path \<noteq> [] then path @ ascii ''.'' @ k else k)"

definition item_path :: "py_builtins \<Rightarrow> pystr \<Rightarrow> nat \<Rightarrow> pystr" where
  \<comment> \<open>\<open>f"{path}[{i}]" if path else f"[{i}]"\<close>\<close>
  "item_path py path i =
     (if path \<noteq> [] then path @ ascii ''['' @ py_repr py (JInt (int i)) @ ascii '']''
      else ascii ''['' @ py_repr py (JInt (int i)) @ ascii '']'')"

definition py_less :: "json \<Rightarrow> number \<Rightarrow> bool" where
  \<comment> \<open>\<open>val < bound\<close> on a value that passed the integer or number test\<close>
  "py_less val bound =
     (case num_value val of None \<Rightarrow> False | Some x \<Rightarrow> x < real_of_number bound)"

definition py_greater :: "json \<Rightarrow> number \<Rightarrow> bool" where
  "py_greater val bound =
     (case num_value val of None \<Rightarrow> False | Some x \<Rightarrow> x > real_of_number bound)"

definition py_len :: "json \<Rightarrow> int" where
  \<comment> \<open>\<open>len(val)\<close> on a value that passed the string test\<close>
  "py_len val = (case val of JStr s \<Rightarrow> int (length s) | _ \<Rightarrow> 0)"

fun validate :: "py_builtins \<Rightarrow> json \<Rightarrow> schema \<Rightarrow> pystr \<Rightarrow> pystr list" where
  \<comment> \<open>\<open>Tool._validate\<close>\<close>
  "validate py val schema path =
     (let t = sch_type schema; label = path_label path
      in if type_mismatch t val
         then [label @ MSG_SHOULD_BE @ fmt_type t @ MSG_TYPE]
         else
           (case sch_enum schema of
              None \<Rightarrow> []
            | Some enum \<Rightarrow>
                if \<not> py_in val enum
                then [label @ MSG_MUST_BE @ py_repr py (JArr enum) @ MSG_ONE_OF] else [])
           @ (if t = Some (ascii ''integer'') \<or> t = Some (ascii ''number'')
              then (case sch_minimum schema of
                      None \<Rightarrow> []
                    | Some m \<Rightarrow>
                        if py_less val m
                        then [label @ MSG_GE @ py_repr py (json_of_number m)] else [])
                   @ (case sch_maximum schema of
                        None \<Rightarrow> []
                      | Some m \<Rightarrow>
                          if py_greater val m
                          then [label @ MSG_LE @ py_repr py (json_of_number m)] else [])
              else [])
           @ (if t = Some (ascii ''string'')
              then (case sch_minLength schema of
                      None \<Rightarrow> []
                    | Some n \<Rightarrow>
                        if py_len val < n
                        then [label @ MSG_AT_LEAST @ py_repr py (JInt n) @ MSG_CHARS] else [])
                   @ (case sch_maxLength schema of
                        None \<Rightarrow> []
                      | Some n \<Rightarrow>
                          if py_len val > n
                          then [label @ MSG_AT_MOST @ py_repr py (JInt n) @ MSG_CHARS] else [])
              else [])
           @ (if t = Some (ascii ''object'')
              then (case val of
                      JObj kvs \<Rightarrow>
                        (let props = (case sch_properties schema of None \<Rightarrow> [] | Some ps \<Rightarrow> ps)
                         in concat (map (\<lambda>k. if k \<notin> fst ` set kvs
                                               then [MSG_MISSING @ child_path path k] else [])
                                      (case sch_required schema of None \<Rightarrow> [] | Some r \<Rightarrow> r))
                            @ concat (map (\<lambda>(k, v). case map_of props k of
                                                       None \<Rightarrow> []
                                                     | Some s \<Rightarrow> validate py v s (child_path path k))
                                        kvs))
                    | _ \<Rightarrow> [])
              else [])
           @ (if t = Some (ascii ''array'')
              then (case sch_items schema of
                      None \<Rightarrow> []
                    | Some s \<Rightarrow>
                        (case val of
                           JArr xs \<Rightarrow>
                             concat (map (\<lambda>(i, item). validate py item s (item_path py path i))
                                       (enumerate 0 xs))
                         | _ \<Rightarrow> []))
              else []))"

declare validate.simps [simp del]

definition with_object_type :: "schema \<Rightarrow> schema" where
  \<comment> \<open>\<open>{**schema, "type": "object"}\<close>\<close>
  "with_object_type s =
     Schema (Some (ascii ''object'')) (sch_enum s) (sch_minimum s) (sch_maximum s)
       (sch_minLength s) (sch_maxLength s) (sch_properties s) (sch_required s) (sch_items s)"

definition validate_params :: "py_builtins \<Rightarrow> schema \<Rightarrow> json \<Rightarrow> exn + pystr list" where
  \<comment> \<open>\<open>Tool.validate_params\<close>; \<open>parameters\<close> is the tool's schema. A schema of another
      type than object raises ValueError.\<close>
  "validate_params py parameters params =
     (case sch_type parameters of
        Some t \<Rightarrow>
          if t \<noteq> ascii ''object''
          then Inl (Exception (MSG_SCHEMA_OBJECT @ py_repr py (JStr t)))
          else Inr (validate py params (with_object_type parameters) [])
      | None \<Rightarrow> Inr (validate py params (with_object_type parameters) []))"

datatype tool_class =
  ReadFileTool | WriteFileTool | ListDirTool | ExecTool | WebSearchTool | WebFetchTool
| SpawnTool | MessageTool | OtherTool

text \<open>
  A tool object: its class, its three properties and its \<open>execute\<close> method, which acts
  on the state of the world \<open>'w\<close> and returns a text or raises.
\<close>

record 'w Tool =
  tool_class :: tool_class
  name :: pystr
  description :: pystr
  parameters :: schema
  execute :: "(pystr \<times> json) list \<Rightarrow> 'w \<Rightarrow> (exn + pystr) \<times> 'w"

record tool_definition =
  function_name :: pystr
  function_description :: pystr
  function_parameters :: schema

definition to_schema :: "'w Tool \<Rightarrow> tool_definition" where
  "to_schema tool =
     \<lparr>function_name = name tool, function_description = description tool,
      function_parameters = parameters tool\<rparr>"

section \<open>The spawn tool (agent/tools/spawn.py)\<close>

definition spawn_name :: pystr where
  "spawn_name = ascii ''spawn''"

definition string_schema :: schema where
  "string_schema = Schema (Some (ascii ''string'')) None None None None None None None None"

definition spawn_parameters :: schema where
  "spawn_parameters =
     Schema (Some (ascii ''object'')) None None None None None
       (Some [(ascii ''task'', string_schema), (ascii ''label'', string_schema)])
       (Some [ascii ''task'']) None"

section \<open>Tool registry (agent/tools/registry.py)\<close>

type_synonym 'w ToolRegistry = "(pystr \<times> 'w Tool) list"

fun dict_set :: "('k \<times> 'v) list \<Rightarrow> 'k \<Rightarrow> 'v \<Rightarrow> ('k \<times> 'v) list" where
  \<comment> \<open>\<open>d[k] = v\<close>: a key already held keeps its place, a new one goes last\<close>
  "dict_set [] k v = [(k, v)]"
| "dict_set ((k', v') # d) k v = (if k' = k then (k, v) # d else (k', v') # dict_set d k v)"

definition register :: "'w ToolRegistry \<Rightarrow> 'w Tool \<Rightarrow> 'w ToolRegistry" where
  "register tools tool = dict_set tools (name tool) tool"

definition unregister :: "'w ToolRegistry \<Rightarrow> pystr \<Rightarrow> 'w ToolRegistry" where
  "unregister tools nm = filter (\<lambda>(k, _). k \<noteq> nm) tools"

definition get :: "'w ToolRegistry \<Rightarrow> pystr \<Rightarrow> 'w Tool option" where
  "get tools nm = map_of tools nm"

definition has :: "'w ToolRegistry \<Rightarrow> pystr \<Rightarrow> bool" where
  "has tools nm = (nm \<in> fst ` set tools)"

definition get_definitions :: "'w ToolRegistry \<Rightarrow> tool_definition list" where
  "get_definitions tools = map (\<lambda>(_, tool). to_schema tool) tools"

definition tool_names :: "'w ToolRegistry \<Rightarrow> pystr list" where
  "tool_names tools = map fst tools"

definition ERROR_PREFIX :: pystr where
  "ERROR_PREFIX = [0x9519, 0x8BEF, 0xFF1A]"

definition MSG_NOT_FOUND :: pystr where
  "MSG_NOT_FOUND = [0x672A, 0x627E, 0x5230, 0x5DE5, 0x5177, 0x20, 0x27]"

definition MSG_TOOL :: pystr where
  "MSG_TOOL = [0x5DE5, 0x5177, 0x20, 0x27]"

definition MSG_INVALID :: pystr where
  "MSG_INVALID = [0x27, 0x20, 0x7684, 0x53C2, 0x6570, 0x65E0, 0x6548, 0xFF1A]"

definition SEMICOLON :: pystr where
  "SEMICOLON = [0xFF1B]"

definition MSG_EXECUTING :: pystr where
  "MSG_EXECUTING = [0x6267, 0x884C, 0x20]"

definition MSG_FAILED :: pystr where
  "MSG_FAILED = [0x20, 0x65F6, 0x51FA, 0x9519, 0xFF1A]"

definition MSG_NOT_MAPPING :: pystr where
  \<comment> \<open>the TypeError of \<open>f(**x)\<close> on a value that is no dict; validation lets no such
      value through, so no run reaches it\<close>
  "MSG_NOT_MAPPING = ascii ''argument after ** must be a mapping''"

text \<open>
  The result of \<open>ToolRegistry.execute\<close>: what the call returns or raises, the calls of
  \<open>tool.execute\<close> it made (tool name and keyword arguments), and the world after it.
\<close>

record 'w execution =
  outcome :: "exn + pystr"
  invoked :: "(pystr \<times> (pystr \<times> json) list) list"
  world :: 'w

definition execute_try :: "py_builtins \<Rightarrow> pystr \<Rightarrow> 'w Tool \<Rightarrow> json \<Rightarrow> 'w \<Rightarrow> 'w execution" where
  \<comment> \<open>the body of the \<open>try\<close> of \<open>ToolRegistry.execute\<close>. \<open>tool.execute(**params)\<close> on
      a value that is no dict raises TypeError.\<close>
  "execute_try py nm tool params w =
     (case validate_params py (parameters tool) params of
        Inl e \<Rightarrow> \<lparr>outcome = Inl e, invoked = [], world = w\<rparr>
      | Inr errors \<Rightarrow>
          if errors \<noteq> []
          then \<lparr>outcome = Inr (ERROR_PREFIX @ MSG_TOOL @ nm @ MSG_INVALID @ join SEMICOLON errors),
                invoked = [], world = w\<rparr>
          else (case params of
                  JObj kwargs \<Rightarrow>
                    (case execute tool kwargs w of
                       (r, w') \<Rightarrow> \<lparr>outcome = r, invoked = [(name tool, kwargs)], world = w'\<rparr>)
                | _ \<Rightarrow> \<lparr>outcome = Inl (Exception MSG_NOT_MAPPING), invoked = [], world = w\<rparr>))"

definition registry_execute ::
  "py_builtins \<Rightarrow> 'w ToolRegistry \<Rightarrow> pystr \<Rightarrow> json \<Rightarrow> 'w \<Rightarrow> 'w execution" where
  \<comment> \<open>\<open>ToolRegistry.execute\<close>\<close>
  "registry_execute py tools nm params w =
     (case map_of tools nm of
        None \<Rightarrow> \<lparr>outcome = Inr (ERROR_PREFIX @ MSG_NOT_FOUND @ nm @ ascii [CHR 0x27]),
                 invoked = [], world = w\<rparr>
      | Some tool \<Rightarrow>
          (let r = execute_try py nm tool params w
           in case outcome r of
                Inr text \<Rightarrow> r
              | Inl (Exception e) \<Rightarrow> r\<lparr>outcome := Inr (MSG_EXECUTING @ nm @ MSG_FAILED @ e)\<rparr>))"

section \<open>Bus events (bus/events.py)\<close>

record InboundMessage =
  channel :: pystr
  sender_id :: pystr
  chat_id :: pystr
  content :: pystr
  timestamp :: int
  media :: "pystr list"
  metadata :: "(pystr \<times> json) list"

definition session_key :: "InboundMessage \<Rightarrow> pystr" where
  "session_key m = channel m @ [colon] @ chat_id m"

section \<open>Helpers (utils/helpers.py)\<close>

definition parse_session_key :: "pystr \<Rightarrow> pystr \<times> pystr" where
  "parse_session_key key =
     (let parts = py_split1 colon key
      in if length parts = 2 then (parts ! 0, parts ! 1) else (key, []))"

section \<open>Heartbeat service (heartbeat/service.py)\<close>

datatype file_state = Absent | Unreadable | Readable pystr

definition read_heartbeat_file :: "file_state \<Rightarrow> pystr option" where
  \<comment> \<open>\<open>exists()\<close> false gives None; \<open>read_text()\<close> raising gives None\<close>
  "read_heartbeat_file f =
     (case f of Absent \<Rightarrow> None | Unreadable \<Rightarrow> None | Readable c \<Rightarrow> Some c)"

definition skip_patterns :: "pystr set" where
  "skip_patterns = {ascii ''- [ ]'', ascii ''* [ ]'', ascii ''- [x]'', ascii ''* [x]''}"

fun heartbeat_lines_empty :: "pystr list \<Rightarrow> bool" where
  \<comment> \<open>the \<open>for line in content.split("\n")\<close> loop of \<open>_is_heartbeat_empty\<close>\<close>
  "heartbeat_lines_empty [] = True"
| "heartbeat_lines_empty (line # rest) =
     (let line = py_strip line
      in if line = [] \<or> startswith line (ascii ''#'') \<or> startswith line (ascii ''<!--'')
            \<or> line \<in> skip_patterns
         then heartbeat_lines_empty rest
         else False)"

definition is_heartbeat_empty :: "pystr option \<Rightarrow> bool" where
  "is_heartbeat_empty text =
     (case text of
        None \<Rightarrow> True
      | Some c \<Rightarrow> if c = [] then True else heartbeat_lines_empty (py_split newline c))"

definition HEARTBEAT_PROMPT :: pystr where
  "HEARTBEAT_PROMPT =
     [0x8BFB, 0x53D6, 0x4F60, 0x5DE5, 0x4F5C, 0x533A, 0x4E2D, 0x7684, 0x20, 0x48, 0x45, 0x41,
      0x52, 0x54, 0x42, 0x45, 0x41, 0x54, 0x2E, 0x6D, 0x64, 0xFF08, 0x5982, 0x679C, 0x5B58,
      0x5728, 0xFF09, 0x3002, 0xA, 0x9075, 0x5FAA, 0x5176, 0x4E2D, 0x5217, 0x51FA, 0x7684,
      0x4EFB, 0x4F55, 0x6307, 0x4EE4, 0x6216, 0x4EFB, 0x52A1, 0x3002, 0xA, 0x5982, 0x679C,
      0x4E0D, 0x9700, 0x8981, 0x5173, 0x6CE8, 0x4EFB, 0x4F55, 0x4E8B, 0x60C5, 0xFF0C, 0x53EA,
      0x9700, 0x56DE, 0x590D, 0xFF1A, 0x48, 0x45, 0x41, 0x52, 0x54, 0x42, 0x45, 0x41, 0x54,
      0x5F, 0x4F, 0x4B]"

definition HEARTBEAT_OK_TOKEN :: pystr where
  "HEARTBEAT_OK_TOKEN = ascii ''HEARTBEAT_OK''"

datatype heartbeat_log =
  LogNoTasks | LogChecking | LogOk | LogDone | LogFailed pystr

record tick_trace =
  prompts :: "pystr list"
  logged :: "heartbeat_log list"

definition remove_underscores :: "pystr \<Rightarrow> pystr" where
  \<comment> \<open>\<open>s.replace("_", "")\<close>\<close>
  "remove_underscores s = filter (\<lambda>c. c \<noteq> 0x5F) s"

definition tick ::
  "py_builtins \<Rightarrow> file_state \<Rightarrow> (pystr \<Rightarrow> 'w \<Rightarrow> (exn + pystr) \<times> 'w) option \<Rightarrow> 'w
     \<Rightarrow> tick_trace \<times> 'w" where
  \<comment> \<open>\<open>HeartbeatService._tick\<close>; \<open>w\<close> is the state of the world the callback acts on. The trace holds the prompts the callback was
      called with and the lines logged.\<close>
  "tick py f on_heartbeat w =
     (let text = read_heartbeat_file f
      in if is_heartbeat_empty text
         then (\<lparr>prompts = [], logged = [LogNoTasks]\<rparr>, w)
         else (case on_heartbeat of
                 None \<Rightarrow> (\<lparr>prompts = [], logged = [LogChecking]\<rparr>, w)
               | Some cb \<Rightarrow>
                   (case cb HEARTBEAT_PROMPT w of
                      (Inr response, w') \<Rightarrow>
                        if contains (remove_underscores HEARTBEAT_OK_TOKEN)
                             (remove_underscores (py_upper py response))
                        then (\<lparr>prompts = [HEARTBEAT_PROMPT], logged = [LogChecking, LogOk]\<rparr>, w')
                        else (\<lparr>prompts = [HEARTBEAT_PROMPT], logged = [LogChecking, LogDone]\<rparr>, w')
                    | (Inl (Exception e), w') \<Rightarrow>
                        (\<lparr>prompts = [HEARTBEAT_PROMPT], logged = [LogChecking, LogFailed e]\<rparr>, w'))))"

section \<open>Completion backend (providers/litellm_provider.py)\<close>

text \<open>
  Modelled from the spec: the types \<open>ToolCallRequest\<close> and \<open>LLMResponse\<close> of
  providers/base.py, which is not among the sources: a response holds a content, the
  tool calls (each with an id, a tool name and the parsed arguments), a finish reason and
  the usage; \<open>has_tool_calls\<close> says that the response carries tool calls. The tool
  calls and the usage are empty when the constructor is not given them.
\<close>

record ToolCallRequest =
  call_id :: pystr
  call_name :: pystr
  arguments :: json

record LLMResponse =
  response_content :: "pystr option"
  tool_calls :: "ToolCallRequest list"
  finish_reason :: pystr
  usage :: "(pystr \<times> int) list"

definition has_tool_calls :: "LLMResponse \<Rightarrow> bool" where
  \<comment> \<open>Modelled from the spec: the response carries tool calls\<close>
  "has_tool_calls response = (tool_calls response \<noteq> [])"

text \<open>The message dicts of a transcript, by role.\<close>

datatype tool_call_dict = ToolCallDict pystr pystr pystr
  \<comment> \<open>id, function name, arguments as JSON text; the type is always \<open>function\<close>\<close>

datatype chat_message =
  SystemMessage pystr
| UserMessage pystr
| AssistantMessage pystr "tool_call_dict list"
| ToolMessage pystr pystr pystr
  \<comment> \<open>tool call id, tool name, content\<close>















section \<open>Subagents (agent/subagent.py)\<close>

text \<open>
  Modelled from the spec: the message bus of bus/queue.py, which is not among the
  sources. \<open>publish_inbound\<close> puts the message at the end of the inbound queue, which is
  first in, first out.
\<close>

record MessageBus =
  inbound :: "InboundMessage list"

definition publish_inbound :: "MessageBus \<Rightarrow> InboundMessage \<Rightarrow> MessageBus" where
  \<comment> \<open>Modelled from the spec: \<open>MessageBus.publish_inbound\<close>\<close>
  "publish_inbound bus msg = bus\<lparr>inbound := inbound bus @ [msg]\<rparr>"

record origin =
  origin_channel :: pystr
  origin_chat_id :: pystr

text \<open>
  The manager: \<open>provider\<close> is the \<open>chat\<close> method of its provider, called with the
  transcript, the tool definitions and the model; \<open>tool_library\<close> gives, for each tool
  class, the object that the constructor of the class builds from the settings of the
  manager (the classes of the six tools are not among the sources).
\<close>

record 'w SubagentManager =
  provider ::
    "chat_message list \<Rightarrow> tool_definition list \<Rightarrow> pystr \<Rightarrow> 'w \<Rightarrow> (exn + LLMResponse) \<times> 'w"
  workspace :: pystr
  model :: pystr
  tool_library :: "tool_class \<Rightarrow> 'w Tool"

definition new_tool :: "'w SubagentManager \<Rightarrow> tool_class \<Rightarrow> 'w Tool" where
  \<comment> \<open>an object of the class\<close>
  "new_tool self c = (tool_library self c)\<lparr>tool_class := c\<rparr>"

definition build_subagent_tools :: "'w SubagentManager \<Rightarrow> 'w ToolRegistry" where
  \<comment> \<open>the registry that \<open>_run_subagent\<close> builds, register by register\<close>
  "build_subagent_tools self =
     (let tools = [];
          tools = register tools (new_tool self ReadFileTool);
          tools = register tools (new_tool self WriteFileTool);
          tools = register tools (new_tool self ListDirTool);
          tools = register tools (new_tool self ExecTool);
          tools = register tools (new_tool self WebSearchTool);
          tools = register tools (new_tool self WebFetchTool)
      in tools)"

definition PROMPT_HEAD :: pystr where
  "PROMPT_HEAD =
     [0x23, 0x20, 0x5B50, 0x4EE3, 0x7406, 0xA, 0xA, 0x4F60, 0x662F, 0x7531, 0x4E3B,
      0x4EE3, 0x7406, 0x751F, 0x6210, 0x6765, 0x5B8C, 0x6210, 0x7279, 0x5B9A, 0x4EFB,
      0x52A1, 0x7684, 0x5B50, 0x4EE3, 0x7406, 0x3002, 0xA, 0xA, 0x23, 0x23, 0x20, 0x4F60,
      0x7684, 0x4EFB, 0x52A1, 0xA]"

definition PROMPT_RULES :: pystr where
  "PROMPT_RULES =
     [0xA, 0xA, 0x23, 0x23, 0x20, 0x89C4, 0x5219, 0xA, 0x31, 0x2E, 0x20, 0x4FDD, 0x6301,
      0x4E13, 0x6CE8, 0x20, 0x2D, 0x20, 0x53EA, 0x5B8C, 0x6210, 0x5206, 0x914D, 0x7684,
      0x4EFB, 0x52A1, 0xFF0C, 0x4E0D, 0x505A, 0x5176, 0x4ED6, 0x4E8B, 0x60C5, 0xA, 0x32,
      0x2E, 0x20, 0x4F60, 0x7684, 0x6700, 0x7EC8, 0x54CD, 0x5E94, 0x5C06, 0x62A5, 0x544A,
      0x56DE, 0x4E3B, 0x4EE3, 0x7406, 0xA, 0x33, 0x2E, 0x20, 0x4E0D, 0x8981, 0x53D1,
      0x8D77, 0x5BF9, 0x8BDD, 0x6216, 0x627F, 0x62C5, 0x65C1, 0x652F, 0x4EFB, 0x52A1, 0xA,
      0x34, 0x2E, 0x20, 0x5728, 0x4F60, 0x7684, 0x53D1, 0x73B0, 0x4E2D, 0x8981, 0x7B80,
      0x6D01, 0x4F46, 0x4FE1, 0x606F, 0x4E30, 0x5BCC, 0xA, 0xA, 0x23, 0x23, 0x20, 0x4F60,
      0x80FD, 0x505A, 0x4EC0, 0x4E48, 0xA, 0x2D, 0x20, 0x5728, 0x5DE5, 0x4F5C, 0x533A,
      0x4E2D, 0x8BFB, 0x5199, 0x6587, 0x4EF6, 0xA, 0x2D, 0x20, 0x6267, 0x884C, 0x20, 0x73,
      0x68, 0x65, 0x6C, 0x6C, 0x20, 0x547D, 0x4EE4, 0xA, 0x2D, 0x20, 0x641C, 0x7D22,
      0x7F51, 0x9875, 0x5E76, 0x83B7, 0x53D6, 0x7F51, 0x9875, 0x5185, 0x5BB9, 0xA, 0x2D,
      0x20, 0x5F7B, 0x5E95, 0x5B8C, 0x6210, 0x4EFB, 0x52A1, 0xA, 0xA, 0x23, 0x23, 0x20,
      0x4F60, 0x4E0D, 0x80FD, 0x505A, 0x4EC0, 0x4E48, 0xA, 0x2D, 0x20, 0x76F4, 0x63A5,
      0x5411, 0x7528, 0x6237, 0x53D1, 0x9001, 0x6D88, 0x606F, 0xFF08, 0x65E0, 0x6D88,
      0x606F, 0x5DE5, 0x5177, 0x53EF, 0x7528, 0xFF09, 0xA, 0x2D, 0x20, 0x751F, 0x6210,
      0x5176, 0x4ED6, 0x5B50, 0x4EE3, 0x7406, 0xA, 0x2D, 0x20, 0x8BBF, 0x95EE, 0x4E3B,
      0x4EE3, 0x7406, 0x7684, 0x5BF9, 0x8BDD, 0x5386, 0x53F2, 0xA, 0xA, 0x23, 0x23, 0x20,
      0x5DE5, 0x4F5C, 0x533A, 0xA, 0x4F60, 0x7684, 0x5DE5, 0x4F5C, 0x533A, 0x4F4D, 0x4E8E,
      0xFF1A]"

definition PROMPT_TAIL :: pystr where
  "PROMPT_TAIL =
     [0xA, 0xA, 0x5F53, 0x4F60, 0x5B8C, 0x6210, 0x4EFB, 0x52A1, 0x65F6, 0xFF0C, 0x63D0,
      0x4F9B, 0x4F60, 0x7684, 0x53D1, 0x73B0, 0x6216, 0x884C, 0x52A8, 0x7684, 0x6E05,
      0x6670, 0x603B, 0x7ED3, 0x3002]"

definition build_subagent_prompt :: "'w SubagentManager \<Rightarrow> pystr \<Rightarrow> pystr" where
  "build_subagent_prompt self task =
     PROMPT_HEAD @ task @ PROMPT_RULES @ workspace self @ PROMPT_TAIL"

definition max_iterations :: nat where
  "max_iterations = 15"

definition NO_FINAL_RESPONSE :: pystr where
  "NO_FINAL_RESPONSE =
     [0x4EFB, 0x52A1, 0x5DF2, 0x5B8C, 0x6210, 0xFF0C, 0x4F46, 0x672A, 0x751F, 0x6210,
      0x6700, 0x7EC8, 0x54CD, 0x5E94, 0x3002]"

definition STATUS_OK_TEXT :: pystr where
  "STATUS_OK_TEXT = [0x6210, 0x529F, 0x5B8C, 0x6210]"

definition STATUS_FAILED_TEXT :: pystr where
  "STATUS_FAILED_TEXT = [0x5931, 0x8D25]"

definition ANNOUNCE_HEAD :: pystr where
  "ANNOUNCE_HEAD = [0x5B, 0x5B50, 0x4EE3, 0x7406, 0x20, 0x27]"

definition ANNOUNCE_TASK :: pystr where
  "ANNOUNCE_TASK = [0x5D, 0xA, 0xA, 0x4EFB, 0x52A1, 0xFF1A]"

definition ANNOUNCE_RESULT :: pystr where
  "ANNOUNCE_RESULT = [0xA, 0xA, 0x7ED3, 0x679C, 0xFF1A, 0xA]"

definition ANNOUNCE_TAIL :: pystr where
  "ANNOUNCE_TAIL =
     [0xA, 0xA, 0x81EA, 0x7136, 0x5730, 0x4E3A, 0x7528, 0x6237, 0x603B, 0x7ED3, 0x3002,
      0x4FDD, 0x6301, 0x7B80, 0x77ED, 0xFF08, 0x31, 0x2D, 0x32, 0x20, 0x53E5, 0x8BDD,
      0xFF09, 0x3002, 0x4E0D, 0x8981, 0x63D0, 0x53CA, 0x6280, 0x672F, 0x7EC6, 0x8282,
      0x5982, 0x22, 0x5B50, 0x4EE3, 0x7406, 0x22, 0x6216, 0x4EFB, 0x52A1, 0x20, 0x49,
      0x44, 0x3002]"

definition announce_content :: "pystr \<Rightarrow> pystr \<Rightarrow> pystr \<Rightarrow> pystr \<Rightarrow> pystr" where
  \<comment> \<open>the announcement template of \<open>_announce_result\<close>\<close>
  "announce_content label task result status =
     (let status_text = (if status = ascii ''ok'' then STATUS_OK_TEXT else STATUS_FAILED_TEXT)
      in ANNOUNCE_HEAD @ label @ ascii [CHR 0x27, CHR '' ''] @ status_text @ ANNOUNCE_TASK @ task
         @ ANNOUNCE_RESULT @ result @ ANNOUNCE_TAIL)"

definition announce_result ::
  "int \<Rightarrow> pystr \<Rightarrow> pystr \<Rightarrow> pystr \<Rightarrow> pystr \<Rightarrow> origin \<Rightarrow> pystr \<Rightarrow> MessageBus \<Rightarrow> MessageBus" where
  \<comment> \<open>\<open>_announce_result\<close>; \<open>now\<close> is the clock reading that stamps the message\<close>
  "announce_result now task_id label task result orig status bus =
     publish_inbound bus
       \<lparr>channel = ascii ''system'', sender_id = ascii ''subagent'',
        chat_id = origin_channel orig @ [colon] @ origin_chat_id orig,
        content = announce_content label task result status,
        timestamp = now, media = [], metadata = []\<rparr>"

definition tool_call_dicts :: "py_builtins \<Rightarrow> ToolCallRequest list \<Rightarrow> tool_call_dict list" where
  "tool_call_dicts py tcs =
     map (\<lambda>tc. ToolCallDict (call_id tc) (call_name tc) (json_dumps py (arguments tc))) tcs"

fun run_tool_calls ::
  "py_builtins \<Rightarrow> 'w ToolRegistry \<Rightarrow> ToolCallRequest list \<Rightarrow> chat_message list \<Rightarrow> 'w \<Rightarrow>
   (exn + chat_message list) \<times> 'w" where
  \<comment> \<open>the \<open>for tool_call in response.tool_calls\<close> loop: an exception ends it\<close>
  "run_tool_calls py tools [] messages w = (Inr messages, w)"
| "run_tool_calls py tools (tool_call # rest) messages w =
     (let r = registry_execute py tools (call_name tool_call) (arguments tool_call) w
      in case outcome r of
           Inl e \<Rightarrow> (Inl e, world r)
         | Inr result \<Rightarrow>
             run_tool_calls py tools rest
               (messages @ [ToolMessage (call_id tool_call) (call_name tool_call) result])
               (world r))"

function agent_loop ::
  "py_builtins \<Rightarrow> 'w SubagentManager \<Rightarrow> 'w ToolRegistry \<Rightarrow> nat \<Rightarrow> chat_message list \<Rightarrow> 'w \<Rightarrow>
   (exn + pystr option) \<times> nat \<times> 'w" where
  \<comment> \<open>the \<open>while iteration < max_iterations\<close> loop of \<open>_run_subagent\<close>: it returns
      \<open>final_result\<close> or the exception raised, the iterations made and the world\<close>
  "agent_loop py self tools iteration messages w =
     (if iteration < max_iterations
      then
        (case provider self messages (get_definitions tools) (model self) w of
           (Inl e, w1) \<Rightarrow> (Inl e, Suc iteration, w1)
         | (Inr response, w1) \<Rightarrow>
             if has_tool_calls response
             then
               (case run_tool_calls py tools (tool_calls response)
                       (messages @
                          [AssistantMessage
                             (case response_content response of None \<Rightarrow> [] | Some c \<Rightarrow> c)
                             (tool_call_dicts py (tool_calls response))])
                       w1 of
                  (Inl e, w2) \<Rightarrow> (Inl e, Suc iteration, w2)
                | (Inr messages', w2) \<Rightarrow> agent_loop py self tools (Suc iteration) messages' w2)
             else (Inr (response_content response), Suc iteration, w1))
      else (Inr None, iteration, w))"
  by pat_completeness auto
termination
  by (relation "measure (\<lambda>(py, self, tools, iteration, messages, w). max_iterations - iteration)")
     auto

declare agent_loop.simps [simp del]

record 'w subagent_run =
  iterations :: nat
  bus_after :: MessageBus
  world_after :: 'w

definition run_subagent ::
  "py_builtins \<Rightarrow> 'w SubagentManager \<Rightarrow> int \<Rightarrow> pystr \<Rightarrow> pystr \<Rightarrow> pystr \<Rightarrow> origin \<Rightarrow>
   MessageBus \<Rightarrow> 'w \<Rightarrow> 'w subagent_run" where
  \<comment> \<open>\<open>SubagentManager._run_subagent\<close>\<close>
  "run_subagent py self now task_id task label orig bus w =
     (let tools = build_subagent_tools self;
          system_prompt = build_subagent_prompt self task;
          messages = [SystemMessage system_prompt, UserMessage task]
      in case agent_loop py self tools 0 messages w of
           (Inr final_result, n, w') \<Rightarrow>
             \<lparr>iterations = n,
              bus_after =
                announce_result now task_id label task
                  (case final_result of None \<Rightarrow> NO_FINAL_RESPONSE | Some r \<Rightarrow> r)
                  orig (ascii ''ok'') bus,
              world_after = w'\<rparr>
         | (Inl (Exception e), n, w') \<Rightarrow>
             \<lparr>iterations = n,
              bus_after =
                announce_result now task_id label task (ERROR_PREFIX @ e) orig (ascii ''error'') bus,
              world_after = w'\<rparr>)"

section \<open>Cron jobs (cron/types.py)\<close>

datatype schedule_kind = At | Every | Cron

record CronSchedule =
  kind :: schedule_kind
  at_ms :: "int option"
  every_ms :: "int option"
  expr :: "pystr option"
  tz :: "pystr option"

datatype payload_kind = SystemEvent | AgentTurn

record CronPayload =
  payload_kind :: payload_kind
  message :: pystr
  deliver :: bool
  payload_channel :: "pystr option"
  payload_to :: "pystr option"

datatype run_status = Ok | Error | Skipped

record CronJobState =
  next_run_at_ms :: "int option"
  last_run_at_ms :: "int option"
  last_status :: "run_status option"
  last_error :: "pystr option"

record CronJob =
  job_id :: pystr
  job_name :: pystr
  enabled :: bool
  schedule :: CronSchedule
  payload :: CronPayload
  state :: CronJobState
  created_at_ms :: int
  updated_at_ms :: int
  delete_after_run :: bool

record CronStore =
  version :: int
  jobs :: "CronJob list"

text \<open>
  Modelled from the spec: the next-run computation and the firing of a job by the cron
  service (cron/service.py is not among the sources). For \<open>at\<close> the next run is the
  absolute timestamp; for \<open>every\<close> it is now plus the interval; for \<open>cron\<close> it is
  computed from the expression relative to now in the job's timezone, by \<open>cron_next\<close>.
\<close>

definition compute_next_run ::
  "(pystr \<Rightarrow> pystr option \<Rightarrow> int \<Rightarrow> int option) \<Rightarrow> CronSchedule \<Rightarrow> int \<Rightarrow> int option" where
  \<comment> \<open>Modelled from the spec: the next fire time of a schedule, computed at \<open>now\<close>\<close>
  "compute_next_run cron_next sched now =
     (case kind sched of
        At \<Rightarrow> at_ms sched
      | Every \<Rightarrow> (case every_ms sched of None \<Rightarrow> None | Some period \<Rightarrow> Some (now + period))
      | Cron \<Rightarrow> (case expr sched of None \<Rightarrow> None | Some e \<Rightarrow> cron_next e (tz sched) now))"

text \<open>
  Modelled from the spec: a fire at \<open>now\<close> calls the callback, records the time of the
  fire and its outcome (\<open>error\<close> with the error text when the callback raises), and re-arms
  the schedule from the time of the fire; a job of kind \<open>at\<close> is removed when it is
  flagged so, and disabled otherwise.
\<close>

definition fire_job ::
  "(pystr \<Rightarrow> pystr option \<Rightarrow> int \<Rightarrow> int option) \<Rightarrow>
   (CronJob \<Rightarrow> 'w \<Rightarrow> (exn + pystr option) \<times> 'w) \<Rightarrow> CronJob \<Rightarrow> int \<Rightarrow> 'w \<Rightarrow> CronJob option \<times> 'w" where
  \<comment> \<open>Modelled from the spec: one fire of a job at \<open>now\<close>; None when the job is removed\<close>
  "fire_job cron_next on_job job now w =
     (case on_job job w of
        (r, w') \<Rightarrow>
          (let st = (state job)
                 \<lparr>last_run_at_ms := Some now,
                  last_status := Some (case r of Inr _ \<Rightarrow> Ok | Inl _ \<Rightarrow> Error),
                  last_error := (case r of Inr _ \<Rightarrow> None | Inl (Exception e) \<Rightarrow> Some e)\<rparr>
           in case kind (schedule job) of
                At \<Rightarrow>
                  if delete_after_run job then (None, w')
                  else (Some (job\<lparr>enabled := False, state := st\<lparr>next_run_at_ms := None\<rparr>,
                                 updated_at_ms := now\<rparr>), w')
              | _ \<Rightarrow>
                  (Some (job\<lparr>state := st\<lparr>next_run_at_ms :=
                                          compute_next_run cron_next (schedule job) now\<rparr>,
                              updated_at_ms := now\<rparr>), w')))"

definition due :: "CronJob \<Rightarrow> int \<Rightarrow> bool" where
  \<comment> \<open>Modelled from the spec: the next-run check (at or after the next run)\<close>
  "due job now = (case next_run_at_ms (state job) of None \<Rightarrow> False | Some t \<Rightarrow> t \<le> now)"

text \<open>
  Modelled from the spec: \<open>run_job(id, force)\<close>. A forced run passes over the enabled
  flag and the next-run check; the store is rewritten with the job as the fire left it.
\<close>

definition run_job ::
  "(pystr \<Rightarrow> pystr option \<Rightarrow> int \<Rightarrow> int option) \<Rightarrow>
   (CronJob \<Rightarrow> 'w \<Rightarrow> (exn + pystr option) \<times> 'w) \<Rightarrow> CronStore \<Rightarrow> pystr \<Rightarrow> bool \<Rightarrow> int \<Rightarrow> 'w \<Rightarrow>
   bool \<times> CronStore \<times> 'w" where
  \<comment> \<open>Modelled from the spec: \<open>CronService.run_job\<close>\<close>
  "run_job cron_next on_job store jid force now w =
     (case find (\<lambda>j. job_id j = jid) (jobs store) of
        None \<Rightarrow> (False, store, w)
      | Some job \<Rightarrow>
          if \<not> force \<and> \<not> (enabled job \<and> due job now) then (False, store, w)
          else (case fire_job cron_next on_job job now w of
                  (None, w') \<Rightarrow>
                    (True, store\<lparr>jobs := filter (\<lambda>j. job_id j \<noteq> jid) (jobs store)\<rparr>, w')
                | (Some job', w') \<Rightarrow>
                    (True,
                     store\<lparr>jobs := map (\<lambda>j. if job_id j = jid then job' else j) (jobs store)\<rparr>,
                     w')))"

section \<open>The violations of a schema, an empty task file, the restricted tools\<close>

text \<open>
  The checks of schema validation as a relation, one rule for each check: \<open>violation py val
  s path m\<close> says that the value \<open>val\<close>, found at \<open>path\<close>, breaks the schema \<open>s\<close> in a
  way that the message \<open>m\<close> reports. A value of the wrong type breaks its schema in that
  way only; the other checks are those of a value of the declared type.
\<close>

inductive violation :: "py_builtins \<Rightarrow> json \<Rightarrow> schema \<Rightarrow> pystr \<Rightarrow> pystr \<Rightarrow> bool" for py where
  type_violation:
    "type_mismatch (sch_type s) val \<Longrightarrow>
     violation py val s path (path_label path @ MSG_SHOULD_BE @ fmt_type (sch_type s) @ MSG_TYPE)"
| enum_violation:
    "\<not> type_mismatch (sch_type s) val \<Longrightarrow> sch_enum s = Some enum \<Longrightarrow> \<not> py_in val enum \<Longrightarrow>
     violation py val s path (path_label path @ MSG_MUST_BE @ py_repr py (JArr enum) @ MSG_ONE_OF)"
| minimum_violation:
    "\<not> type_mismatch (sch_type s) val \<Longrightarrow>
     sch_type s = Some (ascii ''integer'') \<or> sch_type s = Some (ascii ''number'') \<Longrightarrow>
     sch_minimum s = Some m \<Longrightarrow> py_less val m \<Longrightarrow>
     violation py val s path (path_label path @ MSG_GE @ py_repr py (json_of_number m))"
| maximum_violation:
    "\<not> type_mismatch (sch_type s) val \<Longrightarrow>
     sch_type s = Some (ascii ''integer'') \<or> sch_type s = Some (ascii ''number'') \<Longrightarrow>
     sch_maximum s = Some m \<Longrightarrow> py_greater val m \<Longrightarrow>
     violation py val s path (path_label path @ MSG_LE @ py_repr py (json_of_number m))"
| minLength_violation:
    "\<not> type_mismatch (sch_type s) val \<Longrightarrow> sch_type s = Some (ascii ''string'') \<Longrightarrow>
     sch_minLength s = Some n \<Longrightarrow> py_len val < n \<Longrightarrow>
     violation py val s path (path_label path @ MSG_AT_LEAST @ py_repr py (JInt n) @ MSG_CHARS)"
| maxLength_violation:
    "\<not> type_mismatch (sch_type s) val \<Longrightarrow> sch_type s = Some (ascii ''string'') \<Longrightarrow>
     sch_maxLength s = Some n \<Longrightarrow> py_len val > n \<Longrightarrow>
     violation py val s path (path_label path @ MSG_AT_MOST @ py_repr py (JInt n) @ MSG_CHARS)"
| required_violation:
    "sch_type s = Some (ascii ''object'') \<Longrightarrow> sch_required s = Some r \<Longrightarrow> k \<in> set r \<Longrightarrow>
     k \<notin> fst ` set kvs \<Longrightarrow>
     violation py (JObj kvs) s path (MSG_MISSING @ child_path path k)"
| property_violation:
    "sch_type s = Some (ascii ''object'') \<Longrightarrow> sch_properties s = Some props \<Longrightarrow>
     (k, v) \<in> set kvs \<Longrightarrow> map_of props k = Some s' \<Longrightarrow>
     violation py v s' (child_path path k) m \<Longrightarrow>
     violation py (JObj kvs) s path m"
| item_violation:
    "sch_type s = Some (ascii ''array'') \<Longrightarrow> sch_items s = Some s' \<Longrightarrow> i < length xs \<Longrightarrow>
     violation py (xs ! i) s' (item_path py path i) m \<Longrightarrow>
     violation py (JArr xs) s path m"


text \<open>
  The task files on which a heartbeat has nothing to do: the file is absent or unreadable,
  or it is empty, or every line of it, once trimmed, is blank, starts with a hash sign or
  with the opener of an HTML comment, or is a bare checkbox.
\<close>

definition spec_nothing_actionable :: "file_state \<Rightarrow> bool" where
  "spec_nothing_actionable f =
     (case f of
        Absent \<Rightarrow> True
      | Unreadable \<Rightarrow> True
      | Readable c \<Rightarrow>
          c = [] \<or>
          (\<forall>l \<in> set (py_split newline c).
             py_strip l = [] \<or> startswith (py_strip l) (ascii ''#'') \<or>
             startswith (py_strip l) (ascii ''<!--'') \<or>
             py_strip l \<in> {ascii ''- [ ]'', ascii ''* [ ]'', ascii ''- [x]'', ascii ''* [x]''}))"

text \<open>
  The restricted set of a subagent: the file tools (read, write, list), the shell tool and
  the web tools (search, fetch), in the order of their registration.
\<close>

definition subagent_tool_classes :: "tool_class list" where
  "subagent_tool_classes =
     [ReadFileTool, WriteFileTool, ListDirTool, ExecTool, WebSearchTool, WebFetchTool]"

section \<open>Sample inputs\<close>

text \<open>
  Stand-ins for the builtins, for the examples below: \<open>sample_repr\<close> agrees with Python's
  \<open>repr\<close> on \<open>None\<close>, booleans, integers, strings of printable characters that hold no
  quote or backslash, and lists and dicts of these (no example holds a float); the JSON
  functions agree with \<open>json.dumps\<close> and \<open>json.loads\<close> on the empty dict; the case
  functions agree with \<open>str.lower\<close> and \<open>str.upper\<close> on ASCII text.
\<close>

fun digits :: "nat \<Rightarrow> pystr" where
  "digits n = (if n < 10 then [0x30 + n] else digits (n div 10) @ [0x30 + n mod 10])"

declare digits.simps [simp del]

fun sample_repr :: "json \<Rightarrow> pystr" where
  "sample_repr JNull = ascii ''None''"
| "sample_repr (JBool b) = (if b then ascii ''True'' else ascii ''False'')"
| "sample_repr (JInt i) = (if i < 0 then ascii ''-'' @ digits (nat (- i)) else digits (nat i))"
| "sample_repr (JFloat r) = []"
| "sample_repr (JStr s) = [0x27] @ s @ [0x27]"
| "sample_repr (JArr xs) = ascii ''['' @ join (ascii '', '') (map sample_repr xs) @ ascii '']''"
| "sample_repr (JObj kvs) =
     ascii ''{'' @ join (ascii '', '')
        (map (\<lambda>(k, v). [0x27] @ k @ [0x27] @ ascii '': '' @ sample_repr v) kvs) @ ascii ''}''"

definition sample_builtins :: py_builtins where
  "sample_builtins =
     \<lparr>py_repr = sample_repr,
      json_dumps = (\<lambda>j. ascii ''{}''),
      json_loads = (\<lambda>s. if s = ascii ''{}'' then Some (JObj []) else None),
      py_lower = map (\<lambda>c. if 0x41 \<le> c \<and> c \<le> 0x5A then c + 0x20 else c),
      py_upper = map (\<lambda>c. if 0x61 \<le> c \<and> c \<le> 0x7A then c - 0x20 else c)\<rparr>"

definition mode_schema :: schema where
  "mode_schema =
     Schema (Some (ascii ''string'')) (Some [JStr (ascii ''fast''), JStr (ascii ''slow'')])
       None None None None None None None"

definition count_schema :: schema where
  "count_schema =
     Schema (Some (ascii ''integer'')) None (Some (NInt 1)) None None None None None None"

definition job_parameters :: schema where
  "job_parameters =
     Schema (Some (ascii ''object'')) None None None None None
       (Some [(ascii ''mode'', mode_schema), (ascii ''count'', count_schema)])
       (Some [ascii ''mode'', ascii ''name'']) None"


definition good_args :: json where
  "good_args =
     JObj [(ascii ''mode'', JStr (ascii ''fast'')), (ascii ''name'', JStr (ascii ''nightly'')),
           (ascii ''count'', JInt 3)]"

definition bad_args :: json where
  "bad_args = JObj [(ascii ''mode'', JInt 5), (ascii ''count'', JInt 0)]"

definition counting_tool :: "nat Tool" where
  \<comment> \<open>a tool that counts its runs in the world\<close>
  "counting_tool =
     \<lparr>tool_class = OtherTool, name = ascii ''job'', description = [],
      parameters = job_parameters,
      execute = (\<lambda>kwargs w. (Inr (ascii ''done''), Suc w))\<rparr>"

definition failing_tool :: "nat Tool" where
  \<comment> \<open>a tool whose run raises\<close>
  "failing_tool =
     \<lparr>tool_class = OtherTool, name = ascii ''save'', description = [],
      parameters = Schema None None None None None None None None None,
      execute = (\<lambda>kwargs w. (Inl (Exception (ascii ''disk full'')), w))\<rparr>"

definition sample_tools :: "nat ToolRegistry" where
  "sample_tools = register (register [] counting_tool) failing_tool"



definition class_name :: "tool_class \<Rightarrow> pystr" where
  "class_name c =
     (case c of
        ReadFileTool \<Rightarrow> ascii ''read_file''
      | WriteFileTool \<Rightarrow> ascii ''write_file''
      | ListDirTool \<Rightarrow> ascii ''list_dir''
      | ExecTool \<Rightarrow> ascii ''exec''
      | WebSearchTool \<Rightarrow> ascii ''web_search''
      | WebFetchTool \<Rightarrow> ascii ''web_fetch''
      | SpawnTool \<Rightarrow> ascii ''spawn''
      | MessageTool \<Rightarrow> ascii ''message''
      | OtherTool \<Rightarrow> ascii ''other'')"

definition sample_library :: "tool_class \<Rightarrow> nat Tool" where
  "sample_library c =
     \<lparr>tool_class = c, name = class_name c, description = [],
      parameters = Schema None None None None None None None None None,
      execute = (\<lambda>kwargs w. (Inr (ascii ''ok''), w))\<rparr>"

definition looping_manager :: "nat SubagentManager" where
  \<comment> \<open>a manager whose backend asks for a tool call at every turn\<close>
  "looping_manager =
     \<lparr>provider =
        (\<lambda>messages defs m w.
           (Inr \<lparr>response_content = None,
                 tool_calls =
                   [\<lparr>call_id = ascii ''c1'', call_name = ascii ''list_dir'', arguments = JObj []\<rparr>],
                 finish_reason = ascii ''tool_calls'', usage = []\<rparr>, Suc w)),
      workspace = ascii ''/ws'', model = ascii ''m'', tool_library = sample_library\<rparr>"


definition sample_origin :: origin where
  "sample_origin = \<lparr>origin_channel = ascii ''telegram'', origin_chat_id = ascii ''42''\<rparr>"

definition digest_job :: CronJob where
  "digest_job =
     \<lparr>job_id = ascii ''j1'', job_name = ascii ''daily-digest'', enabled = False,
      schedule = \<lparr>kind = Every, at_ms = None, every_ms = Some 3600000, expr = None, tz = None\<rparr>,
      payload = \<lparr>payload_kind = AgentTurn, message = ascii ''summarize today'', deliver = False,
                 payload_channel = None, payload_to = None\<rparr>,
      state = \<lparr>next_run_at_ms = Some 3600500, last_run_at_ms = None, last_status = None,
               last_error = None\<rparr>,
      created_at_ms = 500, updated_at_ms = 500, delete_after_run = False\<rparr>"


section \<open>Evaluation rules\<close>

lemmas digits_eval = digits.simps [of 0] digits.simps [of "Suc 0"] digits.simps [of "numeral k"] for k

lemmas validate_eval =
  validate.simps [of _ JNull] validate.simps [of _ "JBool b"] validate.simps [of _ "JInt i"]
  validate.simps [of _ "JFloat r"] validate.simps [of _ "JStr t"] validate.simps [of _ "JArr xs"]
  validate.simps [of _ "JObj kvs"] for b i r t xs kvs

lemmas eval_defs =
  ascii_def type_mismatch_def TYPE_MAP_def fmt_type_def path_label_def child_path_def
  item_path_def py_less_def py_greater_def py_len_def py_in_def json_of_number_def
  real_of_number_def with_object_type_def validate_params_def

section \<open>Validation reports the violations\<close>

lemma object_matches [simp]: "\<not> type_mismatch (Some (ascii ''object'')) (JObj kvs)"
  by (simp add: type_mismatch_def TYPE_MAP_def ascii_def)

lemma array_matches [simp]: "\<not> type_mismatch (Some (ascii ''array'')) (JArr xs)"
  by (simp add: type_mismatch_def TYPE_MAP_def ascii_def)

lemma type_names_distinct [simp]:
  "ascii ''object'' \<noteq> ascii ''array''" "ascii ''object'' \<noteq> ascii ''string''"
  "ascii ''object'' \<noteq> ascii ''integer''" "ascii ''object'' \<noteq> ascii ''number''"
  "ascii ''array'' \<noteq> ascii ''string''" "ascii ''array'' \<noteq> ascii ''integer''"
  "ascii ''array'' \<noteq> ascii ''number''" "ascii ''array'' \<noteq> ascii ''object''"
  "ascii ''string'' \<noteq> ascii ''integer''" "ascii ''string'' \<noteq> ascii ''number''"
  "ascii ''string'' \<noteq> ascii ''object''" "ascii ''string'' \<noteq> ascii ''array''"
  "ascii ''integer'' \<noteq> ascii ''string''" "ascii ''integer'' \<noteq> ascii ''object''"
  "ascii ''integer'' \<noteq> ascii ''array''" "ascii ''integer'' \<noteq> ascii ''number''"
  "ascii ''number'' \<noteq> ascii ''string''" "ascii ''number'' \<noteq> ascii ''object''"
  "ascii ''number'' \<noteq> ascii ''array''" "ascii ''number'' \<noteq> ascii ''integer''"
  by (simp_all add: ascii_def)

lemma in_set_if:
  "x \<in> set (if c then A else []) \<longleftrightarrow> c \<and> x \<in> set A"
  by (cases c) simp_all

lemma in_set_case_option:
  "x \<in> set (case v of None \<Rightarrow> [] | Some a \<Rightarrow> f a) \<longleftrightarrow> (\<exists>a. v = Some a \<and> x \<in> set (f a))"
  by (cases v) simp_all

lemma in_set_case_obj:
  "x \<in> set (case val of JObj kvs \<Rightarrow> f kvs | _ \<Rightarrow> []) \<longleftrightarrow> (\<exists>kvs. val = JObj kvs \<and> x \<in> set (f kvs))"
  by (cases val) simp_all

lemma in_set_case_arr:
  "x \<in> set (case val of JArr xs \<Rightarrow> f xs | _ \<Rightarrow> []) \<longleftrightarrow> (\<exists>xs. val = JArr xs \<and> x \<in> set (f xs))"
  by (cases val) simp_all

lemma in_required_errors:
  "x \<in> set (concat (map (\<lambda>k. if k \<notin> K then [g k] else []) (case r of None \<Rightarrow> [] | Some ks \<Rightarrow> ks)))
     \<longleftrightarrow> (\<exists>ks k. r = Some ks \<and> k \<in> set ks \<and> k \<notin> K \<and> x = g k)"
  by (cases r) (auto split: if_splits)

lemma in_property_errors:
  "x \<in> set (concat (map (\<lambda>(k, v). case map_of (case p of None \<Rightarrow> [] | Some ps \<Rightarrow> ps) k of
                                       None \<Rightarrow> [] | Some s \<Rightarrow> h v s k) kvs))
     \<longleftrightarrow> (\<exists>props k v s'. p = Some props \<and> (k, v) \<in> set kvs \<and> map_of props k = Some s' \<and>
            x \<in> set (h v s' k))"
proof (cases p)
  case None
  then show ?thesis by (induction kvs) auto
next
  case (Some props)
  have "x \<in> set (concat (map (\<lambda>(k, v). case map_of props k of
                                       None \<Rightarrow> [] | Some s \<Rightarrow> h v s k) kvs))
     \<longleftrightarrow> (\<exists>k v s'. (k, v) \<in> set kvs \<and> map_of props k = Some s' \<and> x \<in> set (h v s' k))"
  proof (induction kvs)
    case Nil
    then show ?case by simp
  next
    case (Cons kv kvs)
    obtain k v where kv: "kv = (k, v)" by (cases kv)
    show ?case
      unfolding kv using Cons.IH
      by (cases "map_of props k") auto
  qed
  with Some show ?thesis by simp
qed

lemma in_item_errors:
  "x \<in> set (concat (map (\<lambda>(i, item). h item i) (enumerate 0 xs)))
     \<longleftrightarrow> (\<exists>i < length xs. x \<in> set (h (xs ! i) i))"
proof
  assume "x \<in> set (concat (map (\<lambda>(i, item). h item i) (enumerate 0 xs)))"
  then obtain i item where "(i, item) \<in> set (enumerate 0 xs)" "x \<in> set (h item i)"
    by auto
  then show "\<exists>i < length xs. x \<in> set (h (xs ! i) i)"
    by (auto simp: in_set_enumerate_eq)
next
  assume "\<exists>i < length xs. x \<in> set (h (xs ! i) i)"
  then obtain i where i: "i < length xs" "x \<in> set (h (xs ! i) i)" by blast
  then have "(i, xs ! i) \<in> set (enumerate 0 xs)"
    by (simp add: in_set_enumerate_eq)
  with i show "x \<in> set (concat (map (\<lambda>(i, item). h item i) (enumerate 0 xs)))"
    by force
qed

lemma in_validate_iff:
  "m \<in> set (validate py val s path) \<longleftrightarrow>
     (if type_mismatch (sch_type s) val
      then m = path_label path @ MSG_SHOULD_BE @ fmt_type (sch_type s) @ MSG_TYPE
      else
        (\<exists>enum. sch_enum s = Some enum \<and> \<not> py_in val enum \<and>
           m = path_label path @ MSG_MUST_BE @ py_repr py (JArr enum) @ MSG_ONE_OF) \<or>
        (sch_type s = Some (ascii ''integer'') \<or> sch_type s = Some (ascii ''number'')) \<and>
           ((\<exists>b. sch_minimum s = Some b \<and> py_less val b \<and>
               m = path_label path @ MSG_GE @ py_repr py (json_of_number b)) \<or>
            (\<exists>b. sch_maximum s = Some b \<and> py_greater val b \<and>
               m = path_label path @ MSG_LE @ py_repr py (json_of_number b))) \<or>
        sch_type s = Some (ascii ''string'') \<and>
           ((\<exists>n. sch_minLength s = Some n \<and> py_len val < n \<and>
               m = path_label path @ MSG_AT_LEAST @ py_repr py (JInt n) @ MSG_CHARS) \<or>
            (\<exists>n. sch_maxLength s = Some n \<and> py_len val > n \<and>
               m = path_label path @ MSG_AT_MOST @ py_repr py (JInt n) @ MSG_CHARS)) \<or>
        sch_type s = Some (ascii ''object'') \<and>
           (\<exists>kvs. val = JObj kvs \<and>
              ((\<exists>r k. sch_required s = Some r \<and> k \<in> set r \<and> k \<notin> fst ` set kvs \<and>
                  m = MSG_MISSING @ child_path path k) \<or>
               (\<exists>props k v s'. sch_properties s = Some props \<and> (k, v) \<in> set kvs \<and>
                  map_of props k = Some s' \<and>
                  m \<in> set (validate py v s' (child_path path k))))) \<or>
        sch_type s = Some (ascii ''array'') \<and>
           (\<exists>s'. sch_items s = Some s' \<and>
              (\<exists>xs. val = JArr xs \<and>
                 (\<exists>i < length xs. m \<in> set (validate py (xs ! i) s' (item_path py path i))))))"
proof (cases "type_mismatch (sch_type s) val")
  case True
  then show ?thesis
    by (subst validate.simps) (simp add: Let_def)
next
  case False
  show ?thesis
    apply (subst validate.simps)
    apply (simp only: Let_def False if_False set_append Un_iff in_set_if
        in_set_case_option in_set_case_obj in_set_case_arr in_required_errors
        in_property_errors in_item_errors list.set insert_iff empty_iff simp_thms)
    done
qed


lemma violation_sound:
  "violation py val s path m \<Longrightarrow> m \<in> set (validate py val s path)"
proof (induction rule: violation.induct)
  case (type_violation s val path)
  then show ?case
    by (subst in_validate_iff) simp
next
  case (enum_violation s val enum path)
  then show ?case
    by (subst in_validate_iff) simp
next
  case (minimum_violation s val m path)
  then show ?case
    by (subst in_validate_iff) simp
next
  case (maximum_violation s val m path)
  then show ?case
    by (subst in_validate_iff) simp
next
  case (minLength_violation s val n path)
  then show ?case
    by (subst in_validate_iff) simp
next
  case (maxLength_violation s val n path)
  then show ?case
    by (subst in_validate_iff) simp
next
  case (required_violation s r k kvs path)
  then have "\<exists>r' k'. sch_required s = Some r' \<and> k' \<in> set r' \<and> k' \<notin> fst ` set kvs \<and>
      MSG_MISSING @ child_path path k = MSG_MISSING @ child_path path k'"
    by blast
  with required_violation show ?case
    by (subst in_validate_iff) simp
next
  case (property_violation s props k v kvs s' path m)
  then have "\<exists>props k v s'. sch_properties s = Some props \<and> (k, v) \<in> set kvs \<and>
      map_of props k = Some s' \<and> m \<in> set (validate py v s' (child_path path k))"
    by blast
  with property_violation show ?case
    by (subst in_validate_iff) simp
next
  case (item_violation s s' i xs path m)
  then have "\<exists>i < length xs. m \<in> set (validate py (xs ! i) s' (item_path py path i))"
    by blast
  with item_violation show ?case
    by (subst in_validate_iff) simp
qed


lemma violation_complete:
  "m \<in> set (validate py val s path) \<Longrightarrow> violation py val s path m"
proof (induction py val s path arbitrary: m rule: validate.induct)
  case (1 py val schema path)
  show ?case
  proof (cases "type_mismatch (sch_type schema) val")
    case True
    with "1.prems" show ?thesis
      by (simp add: in_validate_iff violation.type_violation)
  next
    case False
    have R:
      "(\<exists>enum. sch_enum schema = Some enum \<and> \<not> py_in val enum \<and>
           m = path_label path @ MSG_MUST_BE @ py_repr py (JArr enum) @ MSG_ONE_OF) \<or>
        (sch_type schema = Some (ascii ''integer'') \<or> sch_type schema = Some (ascii ''number'')) \<and>
           ((\<exists>b. sch_minimum schema = Some b \<and> py_less val b \<and>
               m = path_label path @ MSG_GE @ py_repr py (json_of_number b)) \<or>
            (\<exists>b. sch_maximum schema = Some b \<and> py_greater val b \<and>
               m = path_label path @ MSG_LE @ py_repr py (json_of_number b))) \<or>
        sch_type schema = Some (ascii ''string'') \<and>
           ((\<exists>n. sch_minLength schema = Some n \<and> py_len val < n \<and>
               m = path_label path @ MSG_AT_LEAST @ py_repr py (JInt n) @ MSG_CHARS) \<or>
            (\<exists>n. sch_maxLength schema = Some n \<and> py_len val > n \<and>
               m = path_label path @ MSG_AT_MOST @ py_repr py (JInt n) @ MSG_CHARS)) \<or>
        sch_type schema = Some (ascii ''object'') \<and>
           (\<exists>kvs. val = JObj kvs \<and>
              ((\<exists>r k. sch_required schema = Some r \<and> k \<in> set r \<and> k \<notin> fst ` set kvs \<and>
                  m = MSG_MISSING @ child_path path k) \<or>
               (\<exists>props k v s'. sch_properties schema = Some props \<and> (k, v) \<in> set kvs \<and>
                  map_of props k = Some s' \<and>
                  m \<in> set (validate py v s' (child_path path k))))) \<or>
        sch_type schema = Some (ascii ''array'') \<and>
           (\<exists>s'. sch_items schema = Some s' \<and>
              (\<exists>xs. val = JArr xs \<and>
                 (\<exists>i < length xs.
                    m \<in> set (validate py (xs ! i) s' (item_path py path i)))))"
      using "1.prems" False by (simp only: in_validate_iff [of m py val schema path] if_False)
    from R show ?thesis
    proof (elim disjE conjE exE)
      fix enum
      assume "sch_enum schema = Some enum" "\<not> py_in val enum"
        "m = path_label path @ MSG_MUST_BE @ py_repr py (JArr enum) @ MSG_ONE_OF"
      with False show ?thesis by (simp add: violation.enum_violation)
    next
      fix b
      assume "sch_type schema = Some (ascii ''integer'')" "sch_minimum schema = Some b"
        "py_less val b" "m = path_label path @ MSG_GE @ py_repr py (json_of_number b)"
      with False show ?thesis by (simp add: violation.minimum_violation)
    next
      fix b
      assume "sch_type schema = Some (ascii ''integer'')" "sch_maximum schema = Some b"
        "py_greater val b" "m = path_label path @ MSG_LE @ py_repr py (json_of_number b)"
      with False show ?thesis by (simp add: violation.maximum_violation)
    next
      fix b
      assume "sch_type schema = Some (ascii ''number'')" "sch_minimum schema = Some b"
        "py_less val b" "m = path_label path @ MSG_GE @ py_repr py (json_of_number b)"
      with False show ?thesis by (simp add: violation.minimum_violation)
    next
      fix b
      assume "sch_type schema = Some (ascii ''number'')" "sch_maximum schema = Some b"
        "py_greater val b" "m = path_label path @ MSG_LE @ py_repr py (json_of_number b)"
      with False show ?thesis by (simp add: violation.maximum_violation)
    next
      fix n
      assume "sch_type schema = Some (ascii ''string'')" "sch_minLength schema = Some n"
        "py_len val < n" "m = path_label path @ MSG_AT_LEAST @ py_repr py (JInt n) @ MSG_CHARS"
      with False show ?thesis by (simp add: violation.minLength_violation)
    next
      fix n
      assume "sch_type schema = Some (ascii ''string'')" "sch_maxLength schema = Some n"
        "py_len val > n" "m = path_label path @ MSG_AT_MOST @ py_repr py (JInt n) @ MSG_CHARS"
      with False show ?thesis by (simp add: violation.maxLength_violation)
    next
      fix kvs r k
      assume "sch_type schema = Some (ascii ''object'')" "val = JObj kvs"
        "sch_required schema = Some r" "k \<in> set r" "k \<notin> fst ` set kvs"
        "m = MSG_MISSING @ child_path path k"
      then show ?thesis by (simp add: violation.required_violation)
    next
      fix kvs props k v s'
      assume a: "sch_type schema = Some (ascii ''object'')" "val = JObj kvs"
        "sch_properties schema = Some props" "(k, v) \<in> set kvs" "map_of props k = Some s'"
        "m \<in> set (validate py v s' (child_path path k))"
      have "violation py v s' (child_path path k) m"
        using "1.IH"(1) [OF refl refl False _ _ refl a(4) refl _ a(6)] a by simp
      with a show ?thesis by (simp add: violation.property_violation)
    next
      fix s' xs i
      assume a: "sch_type schema = Some (ascii ''array'')" "val = JArr xs"
        "sch_items schema = Some s'" "i < length xs"
        "m \<in> set (validate py (xs ! i) s' (item_path py path i))"
      have e: "(i, xs ! i) \<in> set (enumerate 0 xs)"
        using a by (simp add: in_set_enumerate_eq)
      have "violation py (xs ! i) s' (item_path py path i) m"
        using "1.IH"(2) [OF refl refl False _ _ _ e refl a(5)] a by simp
      with a show ?thesis by (simp add: violation.item_violation)
    qed
  qed
qed


lemma validate_mismatch:
  "type_mismatch (sch_type s) val \<Longrightarrow>
   validate py val s path = [path_label path @ MSG_SHOULD_BE @ fmt_type (sch_type s) @ MSG_TYPE]"
  by (subst validate.simps) (simp add: Let_def)

lemma object_mismatch:
  "(\<nexists>kwargs. val = JObj kwargs) \<Longrightarrow> type_mismatch (Some (ascii ''object'')) val"
  by (cases val) (simp_all add: type_mismatch_def TYPE_MAP_def ascii_def)

lemma validate_object_type:
  "validate py params (with_object_type s) [] = [] \<Longrightarrow> \<exists>kwargs. params = JObj kwargs"
  using validate_mismatch [of "with_object_type s" params py "[]"] object_mismatch [of params]
  by (auto simp: with_object_type_def)

lemma validate_params_valid_dict:
  "validate_params py s params = Inr [] \<Longrightarrow> \<exists>kwargs. params = JObj kwargs"
  by (auto simp: validate_params_def split: option.splits if_splits dest: validate_object_type)


lemma contains_self_prefix: "contains m (m @ b)"
proof (cases "m @ b")
  case Nil
  then show ?thesis by simp
next
  case (Cons x xs)
  have "startswith (m @ b) m"
    by (simp add: startswith_def)
  then have "startswith (x # xs) m"
    by (simp only: Cons)
  then show ?thesis
    by (simp only: Cons contains.simps simp_thms)
qed

lemma contains_append: "contains m (a @ m @ b)"
proof (induction a)
  case Nil
  then show ?case by (simp add: contains_self_prefix)
next
  case (Cons x a)
  then show ?case by simp
qed

lemma join_holds_each:
  "m \<in> set errors \<Longrightarrow> \<exists>a b. join sep errors = a @ m @ b"
proof (induction sep errors rule: join.induct)
  case (1 sep)
  then show ?case by simp
next
  case (2 sep x)
  then have "join sep [x] = [] @ m @ []" by simp
  then show ?case by blast
next
  case (3 sep x y ys)
  show ?case
  proof (cases "m = x")
    case True
    then have "join sep (x # y # ys) = [] @ m @ (sep @ join sep (y # ys))" by simp
    then show ?thesis by blast
  next
    case False
    with 3 obtain a b where "join sep (y # ys) = a @ m @ b" by auto
    then have "join sep (x # y # ys) = (x @ sep @ a) @ m @ b" by simp
    then show ?thesis by blast
  qed
qed

lemma contains_in_message:
  "m \<in> set errors \<Longrightarrow> contains m (pre @ join sep errors)"
proof -
  assume "m \<in> set errors"
  then obtain a b where "join sep errors = a @ m @ b"
    using join_holds_each by blast
  then have "pre @ join sep errors = (pre @ a) @ m @ b" by simp
  then show ?thesis by (simp only: contains_append)
qed

lemmas sample_defs =
  sample_builtins_def job_parameters_def mode_schema_def count_schema_def good_args_def
  bad_args_def counting_tool_def failing_tool_def sample_tools_def register_def

section \<open>The subagent loop\<close>

lemma registry_execute_returns:
  "\<exists>text. outcome (registry_execute py tools nm params w) = Inr text"
  by (auto simp: registry_execute_def Let_def split: option.splits sum.splits exn.splits)

lemma run_tool_calls_returns:
  "\<exists>messages'. fst (run_tool_calls py tools tcs messages w) = Inr messages'"
proof (induction tcs arbitrary: messages w)
  case Nil
  then show ?case by simp
next
  case (Cons tc tcs)
  obtain res where t: "outcome (registry_execute py tools (call_name tc) (arguments tc) w) = Inr res"
    using registry_execute_returns [of py tools "call_name tc" "arguments tc" w] by blast
  show ?case
    using Cons.IH by (simp add: Let_def t)
qed

lemma agent_loop_runs_out:
  "\<forall>messages defs m w. \<exists>response w'.
      provider self messages defs m w = (Inr response, w') \<and> tool_calls response \<noteq> [] \<Longrightarrow>
   iteration \<le> max_iterations \<Longrightarrow>
   \<exists>w'. agent_loop py self tools iteration messages w = (Inr None, max_iterations, w')"
proof (induction py self tools iteration messages w rule: agent_loop.induct)
  case (1 py self tools iteration messages w)
  note H = "1.prems"(1)
  show ?case
  proof (cases "iteration < max_iterations")
    case False
    with "1.prems" have "iteration = max_iterations" by simp
    then show ?thesis
      by (subst agent_loop.simps) simp
  next
    case True
    from H obtain response w1 where
      p: "provider self messages (get_definitions tools) (model self) w = (Inr response, w1)"
      and tc: "tool_calls response \<noteq> []"
      by blast
    let ?ms = "messages @
        [AssistantMessage (case response_content response of None \<Rightarrow> [] | Some c \<Rightarrow> c)
           (tool_call_dicts py (tool_calls response))]"
    obtain messages' w2 where
      r: "run_tool_calls py tools (tool_calls response) ?ms w1 = (Inr messages', w2)"
      using run_tool_calls_returns [of py tools "tool_calls response" ?ms w1]
      by (cases "run_tool_calls py tools (tool_calls response) ?ms w1") auto
    have h: "has_tool_calls response"
      using tc by (simp add: has_tool_calls_def)
    have "\<exists>w'. agent_loop py self tools (Suc iteration) messages' w2 =
        (Inr None, max_iterations, w')"
      using "1.IH" [OF True p [symmetric] refl h r [symmetric] refl] H True by simp
    then show ?thesis
      using True p h r by (subst agent_loop.simps) simp
  qed
qed

lemma dict_set_subset: "set (dict_set d k v) \<subseteq> insert (k, v) (set d)"
  by (induction d k v rule: dict_set.induct) auto

lemma dict_set_new: "k \<notin> fst ` set d \<Longrightarrow> dict_set d k v = d @ [(k, v)]"
  by (induction d k v rule: dict_set.induct) auto

lemma register_classes:
  "tool_class ` snd ` set (register tools tool) \<subseteq> insert (tool_class tool) (tool_class ` snd ` set tools)"
  using dict_set_subset [of tools "name tool" tool] by (fastforce simp: register_def)

lemma new_tool_class [simp]: "tool_class (new_tool self c) = c"
  by (simp add: new_tool_def)

lemma new_tool_name [simp]: "name (new_tool self c) = name (tool_library self c)"
  by (simp add: new_tool_def)

lemma build_subagent_tools_classes:
  "tool_class ` snd ` set (build_subagent_tools self) \<subseteq> set subagent_tool_classes"
proof -
  let ?t1 = "register [] (new_tool self ReadFileTool)"
  let ?t2 = "register ?t1 (new_tool self WriteFileTool)"
  let ?t3 = "register ?t2 (new_tool self ListDirTool)"
  let ?t4 = "register ?t3 (new_tool self ExecTool)"
  let ?t5 = "register ?t4 (new_tool self WebSearchTool)"
  let ?t6 = "register ?t5 (new_tool self WebFetchTool)"
  have 1: "tool_class ` snd ` set ?t1 \<subseteq> {ReadFileTool}"
    using register_classes [of "[]" "new_tool self ReadFileTool"] by simp
  have 2: "tool_class ` snd ` set ?t2 \<subseteq> {ReadFileTool, WriteFileTool}"
    using register_classes [of ?t1 "new_tool self WriteFileTool"] 1 by auto
  have 3: "tool_class ` snd ` set ?t3 \<subseteq> {ReadFileTool, WriteFileTool, ListDirTool}"
    using register_classes [of ?t2 "new_tool self ListDirTool"] 2 by auto
  have 4: "tool_class ` snd ` set ?t4 \<subseteq> {ReadFileTool, WriteFileTool, ListDirTool, ExecTool}"
    using register_classes [of ?t3 "new_tool self ExecTool"] 3 by auto
  have 5: "tool_class ` snd ` set ?t5
      \<subseteq> {ReadFileTool, WriteFileTool, ListDirTool, ExecTool, WebSearchTool}"
    using register_classes [of ?t4 "new_tool self WebSearchTool"] 4 by auto
  have 6: "tool_class ` snd ` set ?t6
      \<subseteq> {ReadFileTool, WriteFileTool, ListDirTool, ExecTool, WebSearchTool, WebFetchTool}"
    using register_classes [of ?t5 "new_tool self WebFetchTool"] 5 by auto
  then show ?thesis
    by (simp add: build_subagent_tools_def Let_def subagent_tool_classes_def)
qed

lemma build_subagent_tools_distinct:
  "distinct (map (\<lambda>c. name (tool_library self c)) subagent_tool_classes) \<Longrightarrow>
   build_subagent_tools self =
     map (\<lambda>c. (name (tool_library self c), new_tool self c)) subagent_tool_classes"
  by (simp add: build_subagent_tools_def Let_def subagent_tool_classes_def register_def
        dict_set_new)

lemma dict_set_keys: "fst ` set (dict_set d k v) = insert k (fst ` set d)"
  by (induction d k v rule: dict_set.induct) auto

lemma build_subagent_tools_keys:
  "fst ` set (build_subagent_tools self)
     = (\<lambda>c. name (tool_library self c)) ` set subagent_tool_classes"
  by (simp add: build_subagent_tools_def Let_def subagent_tool_classes_def register_def
        dict_set_keys insert_commute)


lemma find_replaced:
  "find (\<lambda>j. job_id j = jid) xs = Some job \<Longrightarrow> job_id job' = jid \<Longrightarrow>
   find (\<lambda>j. job_id j = jid) (map (\<lambda>j. if job_id j = jid then job' else j) xs) = Some job'"
  by (induction xs) (auto split: if_splits)

section \<open>Session keys round-trip\<close>

lemma split_first_no_sep:
  "c \<notin> set a \<Longrightarrow> split_first c (a @ c # b) = Some (a, b)"
  by (induction a) auto


text \<open>
  Claim C10. For every inbound message whose channel holds no colon, parsing the message's
  session key gives back the pair of its channel and its chat id, whatever the chat id
  holds (colons included): the parser cuts at the first colon only.
\<close>

theorem session_key_roundtrip:
  "colon \<notin> set (channel m) \<Longrightarrow> parse_session_key (session_key m) = (channel m, chat_id m)"
  unfolding session_key_def
  by (simp add: parse_session_key_def py_split1_def split_first_no_sep)

theorem session_key_roundtrip_witness:
  "colon \<notin> set (ascii ''telegram'') \<and>
   parse_session_key (session_key
      \<lparr>channel = ascii ''telegram'', sender_id = ascii ''u1'', chat_id = ascii ''grp:42:7'',
       content = [], timestamp = 0, media = [], metadata = []\<rparr>)
     = (ascii ''telegram'', ascii ''grp:42:7'')"
proof -
  have h: "colon \<notin> set (ascii ''telegram'')"
    by (simp add: colon_def ascii_def)
  show ?thesis
    using h session_key_roundtrip
      [of "\<lparr>channel = ascii ''telegram'', sender_id = ascii ''u1'',
            chat_id = ascii ''grp:42:7'', content = [], timestamp = 0, media = [],
            metadata = []\<rparr>"]
    by simp
qed

section \<open>The registry runs a tool exactly when its arguments are valid\<close>

text \<open>
  Claim C1. For every registered tool and every argument value, \<open>ToolRegistry.execute\<close>
  calls the tool's \<open>execute\<close> exactly when \<open>validate_params\<close> returns the empty list.
  When it returns violations, the call returns the text that starts with the error
  prefix and lists them, the tool is not called and the world is left as it was. When the
  list is empty, the arguments are a dict, the tool is called once with them, and the
  text it returns is returned as it is.
\<close>

theorem execute_iff_valid:
  assumes "map_of tools nm = Some tool"
  shows
    "(invoked (registry_execute py tools nm params w) \<noteq> []
        \<longleftrightarrow> validate_params py (parameters tool) params = Inr []) \<and>
     (\<forall>e es. validate_params py (parameters tool) params = Inr (e # es) \<longrightarrow>
        registry_execute py tools nm params w =
          \<lparr>outcome = Inr (ERROR_PREFIX @ MSG_TOOL @ nm @ MSG_INVALID @ join SEMICOLON (e # es)),
           invoked = [], world = w\<rparr>) \<and>
     (validate_params py (parameters tool) params = Inr [] \<longrightarrow>
        (\<exists>kwargs. params = JObj kwargs \<and>
           invoked (registry_execute py tools nm params w) = [(name tool, kwargs)] \<and>
           world (registry_execute py tools nm params w) = snd (execute tool kwargs w) \<and>
           (\<forall>r. fst (execute tool kwargs w) = Inr r \<longrightarrow>
              outcome (registry_execute py tools nm params w) = Inr r)))"
proof -
  have a: "validate_params py (parameters tool) params = Inr [] \<Longrightarrow>
      \<exists>kwargs. params = JObj kwargs"
    by (rule validate_params_valid_dict)
  show ?thesis
    using assms a
    by (auto simp: registry_execute_def execute_try_def Let_def
          split: sum.splits exn.splits prod.splits json.splits)
qed

theorem execute_iff_valid_witness:
  "map_of sample_tools (ascii ''job'') = Some counting_tool \<and>
   validate_params sample_builtins (parameters counting_tool) good_args = Inr [] \<and>
   registry_execute sample_builtins sample_tools (ascii ''job'') good_args 0 =
     \<lparr>outcome = Inr (ascii ''done''),
      invoked = [(ascii ''job'',
        [(ascii ''mode'', JStr (ascii ''fast'')), (ascii ''name'', JStr (ascii ''nightly'')),
         (ascii ''count'', JInt 3)])],
      world = 1\<rparr> \<and>
   invoked (registry_execute sample_builtins sample_tools (ascii ''job'') bad_args 0) = []"
proof -
  have h: "map_of sample_tools (ascii ''job'') = Some counting_tool"
    by (simp add: sample_defs ascii_def)
  have v: "validate_params sample_builtins (parameters counting_tool) good_args = Inr []"
    by (simp add: validate_eval digits_eval eval_defs sample_defs Let_def)
  have b: "validate_params sample_builtins (parameters counting_tool) bad_args \<noteq> Inr []"
    by (simp add: validate_eval digits_eval eval_defs sample_defs Let_def)
  have e: "execute counting_tool = (\<lambda>kwargs w. (Inr (ascii ''done''), Suc w))"
    by (simp add: counting_tool_def)
  have n: "name counting_tool = ascii ''job''"
    by (simp add: counting_tool_def)
  show ?thesis
    using h v b
      execute_iff_valid [OF h, of sample_builtins good_args 0]
      execute_iff_valid [OF h, of sample_builtins bad_args 0]
    by (auto simp: e n good_args_def)
qed

section \<open>The registry never raises\<close>




section \<open>Validation lists every violation\<close>

text \<open>
  Claim C3, as the code has it. When validation returns violations, the text that
  \<open>ToolRegistry.execute\<close> returns is the error prefix followed by all of them, joined,
  so each of them stands in the text; and the violations returned are exactly those of
  the relation \<open>violation\<close> at the argument value and the tool's schema taken as an
  object: the mismatch of a type, and for a value of the declared type the enum
  membership, the numeric bounds, the length bounds, the required keys and the violations
  of every property and of every item, at any depth.
\<close>

theorem validation_lists_every_violation:
  assumes "map_of tools nm = Some tool"
    and "validate_params py (parameters tool) params = Inr errors"
  shows
    "(\<forall>m. m \<in> set errors \<longleftrightarrow> violation py params (with_object_type (parameters tool)) [] m) \<and>
     (errors \<noteq> [] \<longrightarrow>
        outcome (registry_execute py tools nm params w) =
          Inr (ERROR_PREFIX @ MSG_TOOL @ nm @ MSG_INVALID @ join SEMICOLON errors) \<and>
        (\<forall>m \<in> set errors.
           contains m (ERROR_PREFIX @ MSG_TOOL @ nm @ MSG_INVALID @ join SEMICOLON errors)))"
proof -
  have e: "errors = validate py params (with_object_type (parameters tool)) []"
    using assms(2) by (auto simp: validate_params_def split: option.splits if_splits)
  have a: "\<forall>m. m \<in> set errors \<longleftrightarrow> violation py params (with_object_type (parameters tool)) [] m"
    unfolding e using violation_sound violation_complete by blast
  have b: "errors \<noteq> [] \<Longrightarrow>
      outcome (registry_execute py tools nm params w) =
        Inr (ERROR_PREFIX @ MSG_TOOL @ nm @ MSG_INVALID @ join SEMICOLON errors)"
    using assms by (simp add: registry_execute_def execute_try_def Let_def)
  have c: "\<forall>m \<in> set errors.
      contains m (ERROR_PREFIX @ MSG_TOOL @ nm @ MSG_INVALID @ join SEMICOLON errors)"
    using contains_in_message [of _ errors "ERROR_PREFIX @ MSG_TOOL @ nm @ MSG_INVALID" SEMICOLON]
    by simp
  from a b c show ?thesis by blast
qed

theorem validation_lists_every_violation_witness:
  "map_of sample_tools (ascii ''job'') = Some counting_tool \<and>
   validate_params sample_builtins (parameters counting_tool) bad_args =
     Inr [MSG_MISSING @ ascii ''name'',
          ascii ''mode'' @ MSG_SHOULD_BE @ ascii ''string'' @ MSG_TYPE,
          ascii ''count'' @ MSG_GE @ ascii ''1''] \<and>
   violation sample_builtins bad_args (with_object_type (parameters counting_tool)) []
     (ascii ''count'' @ MSG_GE @ ascii ''1'') \<and>
   outcome (registry_execute sample_builtins sample_tools (ascii ''job'') bad_args 0) =
     Inr (ERROR_PREFIX @ MSG_TOOL @ ascii ''job'' @ MSG_INVALID @
          join SEMICOLON
            [MSG_MISSING @ ascii ''name'',
             ascii ''mode'' @ MSG_SHOULD_BE @ ascii ''string'' @ MSG_TYPE,
             ascii ''count'' @ MSG_GE @ ascii ''1''])"
proof -
  have h: "map_of sample_tools (ascii ''job'') = Some counting_tool"
    by (simp add: sample_defs ascii_def)
  have v: "validate_params sample_builtins (parameters counting_tool) bad_args =
     Inr [MSG_MISSING @ ascii ''name'',
          ascii ''mode'' @ MSG_SHOULD_BE @ ascii ''string'' @ MSG_TYPE,
          ascii ''count'' @ MSG_GE @ ascii ''1'']"
    by (simp add: validate_eval digits_eval eval_defs sample_defs Let_def)
  note t = validation_lists_every_violation [OF h v, of 0]
  from t have
    "ascii ''count'' @ MSG_GE @ ascii ''1''
       \<in> set [MSG_MISSING @ ascii ''name'',
              ascii ''mode'' @ MSG_SHOULD_BE @ ascii ''string'' @ MSG_TYPE,
              ascii ''count'' @ MSG_GE @ ascii ''1'']
     \<longleftrightarrow> violation sample_builtins bad_args (with_object_type (parameters counting_tool)) []
           (ascii ''count'' @ MSG_GE @ ascii ''1'')"
    by blast
  then have c: "violation sample_builtins bad_args (with_object_type (parameters counting_tool)) []
           (ascii ''count'' @ MSG_GE @ ascii ''1'')"
    by simp
  from t have o: "outcome (registry_execute sample_builtins sample_tools (ascii ''job'') bad_args 0) =
     Inr (ERROR_PREFIX @ MSG_TOOL @ ascii ''job'' @ MSG_INVALID @
          join SEMICOLON
            [MSG_MISSING @ ascii ''name'',
             ascii ''mode'' @ MSG_SHOULD_BE @ ascii ''string'' @ MSG_TYPE,
             ascii ''count'' @ MSG_GE @ ascii ''1''])"
    by blast
  from h v c o show ?thesis by blast
qed

text \<open>
  The claim as the specification states it fails: here the argument \<open>mode\<close> is of the
  wrong type and is not a member of the enum either, and the list of violations holds
  the first of the two only.
\<close>

theorem validation_type_mismatch_hides_enum_counterexample:
  "type_mismatch (sch_type mode_schema) (JInt 5) \<and>
   sch_enum mode_schema = Some [JStr (ascii ''fast''), JStr (ascii ''slow'')] \<and>
   \<not> py_in (JInt 5) [JStr (ascii ''fast''), JStr (ascii ''slow'')] \<and>
   validate_params sample_builtins job_parameters
       (JObj [(ascii ''mode'', JInt 5), (ascii ''count'', JInt 0)]) =
     Inr [MSG_MISSING @ ascii ''name'',
          ascii ''mode'' @ MSG_SHOULD_BE @ ascii ''string'' @ MSG_TYPE,
          ascii ''count'' @ MSG_GE @ ascii ''1''] \<and>
   ascii ''mode'' @ MSG_MUST_BE
       @ sample_repr (JArr [JStr (ascii ''fast''), JStr (ascii ''slow'')]) @ MSG_ONE_OF
     \<notin> set [MSG_MISSING @ ascii ''name'',
              ascii ''mode'' @ MSG_SHOULD_BE @ ascii ''string'' @ MSG_TYPE,
              ascii ''count'' @ MSG_GE @ ascii ''1'']"
  by (simp add: validate_eval digits_eval eval_defs sample_defs Let_def
        MSG_MISSING_def MSG_MUST_BE_def MSG_SHOULD_BE_def MSG_GE_def)

section \<open>The heartbeat runs the callback exactly on a task file with something to do\<close>

lemma heartbeat_lines_empty_iff:
  "heartbeat_lines_empty ls \<longleftrightarrow>
     (\<forall>l \<in> set ls. py_strip l = [] \<or> startswith (py_strip l) (ascii ''#'') \<or>
        startswith (py_strip l) (ascii ''<!--'') \<or> py_strip l \<in> skip_patterns)"
  by (induction ls) (auto simp: Let_def)

lemma is_heartbeat_empty_iff:
  "is_heartbeat_empty (read_heartbeat_file f) \<longleftrightarrow> spec_nothing_actionable f"
  by (cases f)
     (simp_all add: is_heartbeat_empty_def read_heartbeat_file_def spec_nothing_actionable_def
        heartbeat_lines_empty_iff skip_patterns_def)

text \<open>
  Claim C8. With a callback registered, a tick does nothing (it logs that there are no
  tasks, calls nothing and leaves the world as it was) exactly when the task file is
  absent, unreadable or empty, or every line of it, once trimmed, is blank, starts with a
  hash sign or with the opener of an HTML comment, or is one of the four bare checkboxes.
  On every other file the tick calls the callback, once, with the heartbeat prompt.
\<close>

theorem heartbeat_tick_noop_iff:
  "(tick py f (Some cb) w = (\<lparr>prompts = [], logged = [LogNoTasks]\<rparr>, w)
      \<longleftrightarrow> spec_nothing_actionable f) \<and>
   prompts (fst (tick py f (Some cb) w)) =
      (if spec_nothing_actionable f then [] else [HEARTBEAT_PROMPT])"
  by (auto simp: tick_def Let_def is_heartbeat_empty_iff split: prod.splits sum.splits exn.splits)

theorem heartbeat_tick_noop_iff_witness:
  "tick sample_builtins
      (Readable (ascii ''# Tasks'' @ [newline] @ [newline] @ ascii ''  - [ ]  ''))
      (Some (\<lambda>p w. (Inr (ascii ''HEARTBEAT_OK''), Suc w))) (0::nat)
     = (\<lparr>prompts = [], logged = [LogNoTasks]\<rparr>, 0) \<and>
   prompts (fst (tick sample_builtins
      (Readable (ascii ''# Tasks'' @ [newline] @ ascii ''- [ ] buy milk''))
      (Some (\<lambda>p w. (Inr (ascii ''HEARTBEAT_OK''), Suc w))) (0::nat)))
     = [HEARTBEAT_PROMPT]"
proof -
  have q: "spec_nothing_actionable
      (Readable (ascii ''# Tasks'' @ [newline] @ [newline] @ ascii ''  - [ ]  ''))"
    by (simp add: spec_nothing_actionable_def py_split_def ascii_def newline_def py_strip_def
          py_isspace_def startswith_def)
  have a: "\<not> spec_nothing_actionable
      (Readable (ascii ''# Tasks'' @ [newline] @ ascii ''- [ ] buy milk''))"
    by (simp add: spec_nothing_actionable_def py_split_def ascii_def newline_def py_strip_def
          py_isspace_def startswith_def)
  show ?thesis
    using q a
      heartbeat_tick_noop_iff [of sample_builtins
        "Readable (ascii ''# Tasks'' @ [newline] @ [newline] @ ascii ''  - [ ]  '')"
        "\<lambda>p w. (Inr (ascii ''HEARTBEAT_OK''), Suc w)" "0::nat"]
      heartbeat_tick_noop_iff [of sample_builtins
        "Readable (ascii ''# Tasks'' @ [newline] @ ascii ''- [ ] buy milk'')"
        "\<lambda>p w. (Inr (ascii ''HEARTBEAT_OK''), Suc w)" "0::nat"]
    by simp
qed

section \<open>The provider turns backend errors into responses\<close>



section \<open>A subagent has the restricted tools only\<close>

text \<open>
  Claim C6. The registry that a subagent run builds holds objects of the six classes of
  the restricted set only, so none of the spawn class and none of the message class.
  When the six tools have six different names, the registry holds exactly the six, each
  under its name; and when none of the six is named \<open>spawn\<close>, no tool is registered
  under the name of the spawn tool.
\<close>

theorem subagent_tools_restricted:
  "tool_class ` snd ` set (build_subagent_tools self) \<subseteq> set subagent_tool_classes \<and>
   SpawnTool \<notin> tool_class ` snd ` set (build_subagent_tools self) \<and>
   MessageTool \<notin> tool_class ` snd ` set (build_subagent_tools self) \<and>
   (distinct (map (\<lambda>c. name (tool_library self c)) subagent_tool_classes) \<longrightarrow>
      map (\<lambda>(k, tool). tool_class tool) (build_subagent_tools self) = subagent_tool_classes \<and>
      tool_names (build_subagent_tools self)
        = map (\<lambda>c. name (tool_library self c)) subagent_tool_classes) \<and>
   (spawn_name \<notin> (\<lambda>c. name (tool_library self c)) ` set subagent_tool_classes \<longrightarrow>
      \<not> has (build_subagent_tools self) spawn_name)"
proof -
  have a: "tool_class ` snd ` set (build_subagent_tools self) \<subseteq> set subagent_tool_classes"
    by (rule build_subagent_tools_classes)
  have b: "SpawnTool \<notin> set subagent_tool_classes" "MessageTool \<notin> set subagent_tool_classes"
    by (simp_all add: subagent_tool_classes_def)
  have c: "distinct (map (\<lambda>c. name (tool_library self c)) subagent_tool_classes) \<Longrightarrow>
      map (\<lambda>(k, tool). tool_class tool) (build_subagent_tools self) = subagent_tool_classes \<and>
      tool_names (build_subagent_tools self)
        = map (\<lambda>c. name (tool_library self c)) subagent_tool_classes"
    by (simp add: build_subagent_tools_distinct tool_names_def comp_def map_idI)
  have d: "spawn_name \<notin> (\<lambda>c. name (tool_library self c)) ` set subagent_tool_classes \<Longrightarrow>
      \<not> has (build_subagent_tools self) spawn_name"
    by (simp add: has_def build_subagent_tools_keys)
  from a b c d show ?thesis by blast
qed

theorem subagent_tools_restricted_witness:
  "map (\<lambda>(k, tool). tool_class tool) (build_subagent_tools looping_manager)
     = [ReadFileTool, WriteFileTool, ListDirTool, ExecTool, WebSearchTool, WebFetchTool] \<and>
   tool_names (build_subagent_tools looping_manager)
     = [ascii ''read_file'', ascii ''write_file'', ascii ''list_dir'', ascii ''exec'',
        ascii ''web_search'', ascii ''web_fetch''] \<and>
   \<not> has (build_subagent_tools looping_manager) spawn_name"
proof -
  have n: "map (\<lambda>c. name (tool_library looping_manager c)) subagent_tool_classes
     = [ascii ''read_file'', ascii ''write_file'', ascii ''list_dir'', ascii ''exec'',
        ascii ''web_search'', ascii ''web_fetch'']"
    by (simp add: looping_manager_def sample_library_def class_name_def
          subagent_tool_classes_def)
  have d: "distinct (map (\<lambda>c. name (tool_library looping_manager c)) subagent_tool_classes)"
    unfolding n by (simp add: ascii_def)
  have s: "spawn_name \<notin> (\<lambda>c. name (tool_library looping_manager c)) ` set subagent_tool_classes"
    using n by (simp add: spawn_name_def ascii_def subagent_tool_classes_def)
  show ?thesis
    using subagent_tools_restricted [of looping_manager] d s n
    by (simp add: subagent_tool_classes_def)
qed

section \<open>A subagent that never answers stops at the ceiling\<close>

text \<open>
  Claim C4. When every call of the completion backend returns a response that carries tool
  calls, the loop of a subagent run makes 15 iterations and stops; the run then
  publishes the fixed text for a task completed without a final response, under the
  status text of a success.
\<close>

theorem subagent_stops_at_ceiling:
  assumes "\<forall>messages defs m w. \<exists>response w'.
      provider self messages defs m w = (Inr response, w') \<and> tool_calls response \<noteq> []"
  shows
    "iterations (run_subagent py self now task_id task label orig bus w) = 15 \<and>
     inbound (bus_after (run_subagent py self now task_id task label orig bus w)) =
       inbound bus @
         [\<lparr>channel = ascii ''system'', sender_id = ascii ''subagent'',
           chat_id = origin_channel orig @ [colon] @ origin_chat_id orig,
           content =
             ANNOUNCE_HEAD @ label @ ascii [CHR 0x27, CHR '' ''] @ STATUS_OK_TEXT @ ANNOUNCE_TASK
               @ task @ ANNOUNCE_RESULT @ NO_FINAL_RESPONSE @ ANNOUNCE_TAIL,
           timestamp = now, media = [], metadata = []\<rparr>]"
proof -
  obtain w' where
    "agent_loop py self (build_subagent_tools self) 0
       [SystemMessage (build_subagent_prompt self task), UserMessage task] w
     = (Inr None, max_iterations, w')"
    using agent_loop_runs_out [OF assms, of 0 py "build_subagent_tools self"
        "[SystemMessage (build_subagent_prompt self task), UserMessage task]" w]
    by auto
  then show ?thesis
    by (simp add: run_subagent_def Let_def announce_result_def publish_inbound_def
          announce_content_def max_iterations_def)
qed

theorem subagent_stops_at_ceiling_witness:
  "iterations (run_subagent sample_builtins looping_manager 7 (ascii ''ab12cd34'')
      (ascii ''tidy up'') (ascii ''tidy'') sample_origin \<lparr>inbound = []\<rparr> 0) = 15 \<and>
   inbound (bus_after (run_subagent sample_builtins looping_manager 7 (ascii ''ab12cd34'')
      (ascii ''tidy up'') (ascii ''tidy'') sample_origin \<lparr>inbound = []\<rparr> 0)) =
     [\<lparr>channel = ascii ''system'', sender_id = ascii ''subagent'',
       chat_id = ascii ''telegram:42'',
       content =
         ANNOUNCE_HEAD @ ascii ''tidy'' @ ascii [CHR 0x27, CHR '' ''] @ STATUS_OK_TEXT
           @ ANNOUNCE_TASK @ ascii ''tidy up'' @ ANNOUNCE_RESULT @ NO_FINAL_RESPONSE
           @ ANNOUNCE_TAIL,
       timestamp = 7, media = [], metadata = []\<rparr>]"
proof -
  have h: "\<forall>messages defs m w. \<exists>response w'.
      provider looping_manager messages defs m w = (Inr response, w') \<and>
      tool_calls response \<noteq> []"
    by (simp add: looping_manager_def)
  show ?thesis
    using subagent_stops_at_ceiling [OF h, of sample_builtins 7 "ascii ''ab12cd34''"
        "ascii ''tidy up''" "ascii ''tidy''" sample_origin "\<lparr>inbound = []\<rparr>" 0]
    by (simp add: sample_origin_def colon_def ascii_def)
qed

section \<open>Every subagent run is announced once\<close>




section \<open>A job of kind every is re-armed from its last fire\<close>

text \<open>
  Claim C7. For a job whose schedule is of kind \<open>every\<close> with period \<open>P\<close>, a fire at
  time \<open>T\<close> leaves the job with \<open>T\<close> as its last run and \<open>T + P\<close> as its next run,
  whatever its next run, its last run and its creation time were, and leaves its schedule
  and its enabled flag as they were; so does a forced run of the job from the store,
  whether the job is enabled or not.
\<close>

theorem every_job_rearmed_from_fire:
  assumes "kind (schedule job) = Every" and "every_ms (schedule job) = Some P"
  shows
    "(\<exists>job'. fst (fire_job cron_next on_job job T w) = Some job' \<and>
        next_run_at_ms (state job') = Some (T + P) \<and>
        last_run_at_ms (state job') = Some T \<and>
        schedule job' = schedule job \<and> enabled job' = enabled job) \<and>
     (find (\<lambda>j. job_id j = jid) (jobs store) = Some job \<longrightarrow>
        fst (run_job cron_next on_job store jid True T w) \<and>
        (\<exists>job'. find (\<lambda>j. job_id j = jid)
                   (jobs (fst (snd (run_job cron_next on_job store jid True T w)))) = Some job' \<and>
           next_run_at_ms (state job') = Some (T + P) \<and>
           last_run_at_ms (state job') = Some T \<and>
           schedule job' = schedule job \<and> enabled job' = enabled job))"
proof -
  obtain r w' where o: "on_job job w = (r, w')"
    by (cases "on_job job w") auto
  let ?st = "(state job)
      \<lparr>last_run_at_ms := Some T,
       last_status := Some (case r of Inr _ \<Rightarrow> Ok | Inl _ \<Rightarrow> Error),
       last_error := (case r of Inr _ \<Rightarrow> None | Inl (Exception e) \<Rightarrow> Some e),
       next_run_at_ms := Some (T + P)\<rparr>"
  let ?job = "job\<lparr>state := ?st, updated_at_ms := T\<rparr>"
  have f: "fire_job cron_next on_job job T w = (Some ?job, w')"
    using assms o by (simp add: fire_job_def compute_next_run_def Let_def)
  have a: "\<exists>job'. fst (fire_job cron_next on_job job T w) = Some job' \<and>
        next_run_at_ms (state job') = Some (T + P) \<and>
        last_run_at_ms (state job') = Some T \<and>
        schedule job' = schedule job \<and> enabled job' = enabled job"
    by (intro exI [of _ ?job]) (simp add: f)
  have b: "find (\<lambda>j. job_id j = jid) (jobs store) = Some job \<Longrightarrow>
        fst (run_job cron_next on_job store jid True T w) \<and>
        (\<exists>job'. find (\<lambda>j. job_id j = jid)
                   (jobs (fst (snd (run_job cron_next on_job store jid True T w)))) = Some job' \<and>
           next_run_at_ms (state job') = Some (T + P) \<and>
           last_run_at_ms (state job') = Some T \<and>
           schedule job' = schedule job \<and> enabled job' = enabled job)"
  proof -
    assume s: "find (\<lambda>j. job_id j = jid) (jobs store) = Some job"
    then have i: "job_id job = jid"
      by (auto simp: find_Some_iff)
    have r: "run_job cron_next on_job store jid True T w =
        (True, store\<lparr>jobs := map (\<lambda>j. if job_id j = jid then ?job else j) (jobs store)\<rparr>, w')"
      by (simp add: run_job_def s f)
    have "find (\<lambda>j. job_id j = jid)
        (map (\<lambda>j. if job_id j = jid then ?job else j) (jobs store)) = Some ?job"
      using find_replaced [OF s, of ?job] i by simp
    then show ?thesis
      by (simp add: r)
  qed
  from a b show ?thesis by blast
qed

theorem every_job_rearmed_from_fire_witness:
  "(\<exists>job'. fst (fire_job (\<lambda>e z t. None) (\<lambda>j w. (Inr None, Suc w)) digest_job 1000 (0::nat))
        = Some job' \<and>
      next_run_at_ms (state job') = Some 3601000 \<and> last_run_at_ms (state job') = Some 1000 \<and>
      enabled job' = False) \<and>
   fst (run_job (\<lambda>e z t. None) (\<lambda>j w. (Inr None, Suc w)) \<lparr>version = 1, jobs = [digest_job]\<rparr>
          (ascii ''j1'') True 1000 (0::nat))"
proof -
  have k: "kind (schedule digest_job) = Every"
    by (simp add: digest_job_def)
  have e: "every_ms (schedule digest_job) = Some 3600000"
    by (simp add: digest_job_def)
  have f: "find (\<lambda>j. job_id j = ascii ''j1'') (jobs \<lparr>version = 1, jobs = [digest_job]\<rparr>)
      = Some digest_job"
    by (simp add: digest_job_def)
  have n: "enabled digest_job = False"
    by (simp add: digest_job_def)
  show ?thesis
    using every_job_rearmed_from_fire [OF k e, of "\<lambda>e z t. None" "\<lambda>j w. (Inr None, Suc w)"
        1000 "0::nat" "ascii ''j1''" "\<lparr>version = 1, jobs = [digest_job]\<rparr>"] f n
    by auto
qed


end
